theory Spec2Isabelle
  imports Main "HOL-Library.Sublist"
begin

chapter \<open>Model of the ticket monitor\<close>

section \<open>Python values and built-ins\<close>

text \<open>
  A decoded JSON document, as \<open>response.json()\<close> and \<open>json.loads\<close> return it. A
  \<open>JObj\<close> is a Python dict in insertion order; its keys are distinct. JSON numbers are
  modelled as integers.
\<close>

datatype json =
    JNull
  | JBool bool
  | JInt int
  | JStr string
  | JList "json list"
  | JObj "(string \<times> json) list"

text \<open>
  Exceptions are values. \<open>RequestError\<close> stands for whatever the HTTP client raises
  (connection refused, timeout, ...); it carries the text \<open>str(e)\<close>. The other
  constructors are the built-in exception classes the modelled code can raise itself;
  \<open>KeyError\<close> carries the key that was not found.
\<close>

datatype exn =
    KeyError json
  | TypeError
  | ValueError
  | AttributeError
  | ZeroDivisionError
  | RequestError string

text \<open>
  The values of \<open>exn\<close> are exceptions of class \<open>Exception\<close>. What can leave a coroutine
  at an \<open>await\<close> is such an exception or \<open>asyncio.CancelledError\<close>, which \<open>Task.cancel()\<close>
  makes the coroutine receive there. It derives from \<open>BaseException\<close>, so \<open>except Exception\<close>
  does not catch it.
\<close>

datatype raised = CancelledError | Exception exn

text \<open>Truth value of a Python object (\<open>if x:\<close>, \<open>x and y\<close>, \<open>not x\<close>).\<close>

fun truthy :: "json \<Rightarrow> bool" where
  "truthy JNull = False"
| "truthy (JBool b) = b"
| "truthy (JInt n) = (n \<noteq> 0)"
| "truthy (JStr s) = (s \<noteq> [])"
| "truthy (JList xs) = (xs \<noteq> [])"
| "truthy (JObj kvs) = (kvs \<noteq> [])"

text \<open>\<open>d.get(k, default)\<close> on a dict.\<close>

definition dict_get :: "(string \<times> json) list \<Rightarrow> string \<Rightarrow> json \<Rightarrow> json" where
  "dict_get d k dflt = (case map_of d k of None \<Rightarrow> dflt | Some v \<Rightarrow> v)"

text \<open>\<open>sub in s\<close> on strings is the contiguous-sublist test.\<close>

definition str_in :: "string \<Rightarrow> string \<Rightarrow> bool" where
  "str_in sub s = sublist sub s"

text \<open>\<open>s.split(c)[-1]\<close>: what follows the last occurrence of the separator \<open>c\<close>.\<close>

definition split_last :: "char \<Rightarrow> string \<Rightarrow> string" where
  "split_last c s = rev (takeWhile (\<lambda>x. x \<noteq> c) (rev s))"

text \<open>
  \<open>int(s)\<close> on a string: optional surrounding whitespace, an optional sign, then
  decimal digits, where single underscores may separate digits. Anything else raises
  \<open>ValueError\<close>.
\<close>

definition is_space :: "char \<Rightarrow> bool" where
  "is_space c = ((of_char c :: nat) \<in> {9, 10, 11, 12, 13, 28, 29, 30, 31, 32})"

definition is_digit :: "char \<Rightarrow> bool" where
  "is_digit c = (48 \<le> (of_char c :: nat) \<and> (of_char c :: nat) \<le> 57)"

definition strip :: "string \<Rightarrow> string" where
  "strip s = rev (dropWhile is_space (rev (dropWhile is_space s)))"

fun grouped_ok :: "string \<Rightarrow> bool" where
  "grouped_ok [] = False"
| "grouped_ok [c] = is_digit c"
| "grouped_ok (c # d # cs) =
     (is_digit c \<and> (if d = CHR ''_'' then grouped_ok cs else grouped_ok (d # cs)))"

fun digits_value :: "int \<Rightarrow> string \<Rightarrow> int" where
  "digits_value acc [] = acc"
| "digits_value acc (c # cs) =
     (if c = CHR ''_'' then digits_value acc cs
      else digits_value (10 * acc + (int (of_char c) - 48)) cs)"

definition unsigned_of_str :: "string \<Rightarrow> exn + int" where
  "unsigned_of_str s = (if grouped_ok s then Inr (digits_value 0 s) else Inl ValueError)"

definition int_of_str :: "string \<Rightarrow> exn + int" where
  "int_of_str s =
     (case strip s of
        [] \<Rightarrow> Inl ValueError
      | c # cs \<Rightarrow>
          if c = CHR ''-'' then
            (case unsigned_of_str cs of Inl e \<Rightarrow> Inl e | Inr n \<Rightarrow> Inr (- n))
          else if c = CHR ''+'' then unsigned_of_str cs
          else unsigned_of_str (c # cs))"

text \<open>\<open>int(x)\<close> on a decoded JSON value.\<close>

fun py_int :: "json \<Rightarrow> exn + int" where
  "py_int (JInt n) = Inr n"
| "py_int (JBool b) = Inr (if b then 1 else 0)"
| "py_int (JStr s) = int_of_str s"
| "py_int JNull = Inl TypeError"
| "py_int (JList xs) = Inl TypeError"
| "py_int (JObj kvs) = Inl TypeError"

section \<open>Remote site client (\<open>bot/core.py\<close>)\<close>

text \<open>\<open>AudiTicketBot.BASE_URL\<close>.\<close>

definition BASE_URL :: string where
  "BASE_URL = ''https://audidefuehrungen2.regiondo.de''"

text \<open>The dataclass \<open>CookieData\<close>.\<close>

record CookieData =
  cookie_name :: string
  cookie_value :: string
  cookie_domain :: string

subsection \<open>\<open>extract_event_details\<close>\<close>

text \<open>
  What the HTML parser finds in the product page. \<open>first_form\<close> is the result of
  \<open>soup.find('form')\<close> followed by \<open>form.get('action')\<close>: \<open>None\<close> when the page has
  no form, \<open>Some None\<close> when its first form has no \<open>action\<close> attribute. \<open>sku_meta\<close> is
  the same for \<open>soup.find('meta', {'itemprop': 'sku'})\<close> and its \<open>content\<close> attribute.
\<close>

record product_page =
  first_form :: "string option option"
  sku_meta :: "string option option"

text \<open>
  What \<open>await self.session.get(product_url)\<close> gives: the cancellation of the task that
  runs the method, an exception of the HTTP client, or a status code with the page.
\<close>

type_synonym page_response = "raised + int \<times> product_page"

text \<open>The body of the \<open>try\<close> block: \<open>Inl\<close> is an exception leaving the block.\<close>

definition extract_event_details_try ::
  "page_response \<Rightarrow> raised + string option \<times> string option" where
  "extract_event_details_try response =
     (case response of
        Inl e \<Rightarrow> Inl e
      | Inr (status_code, soup) \<Rightarrow>
          if status_code \<noteq> 200 then Inr (None, None)
          else
            let event_id =
                  (case first_form soup of
                     Some (Some action) \<Rightarrow>
                       if action \<noteq> [] then Some (split_last CHR ''/'' action) else None
                   | _ \<Rightarrow> None);
                ticket_id =
                  (case sku_meta soup of
                     Some (Some content) \<Rightarrow>
                       if content \<noteq> [] then Some (split_last CHR ''-'' content) else None
                   | _ \<Rightarrow> None)
            in Inr (event_id, ticket_id))"

text \<open>
  The whole method: \<open>except Exception\<close> turns an exception of that class into
  \<open>(None, None)\<close>; a cancellation passes through.
\<close>

definition extract_event_details ::
  "page_response \<Rightarrow> raised + string option \<times> string option" where
  "extract_event_details response =
     (case extract_event_details_try response of
        Inl CancelledError \<Rightarrow> Inl CancelledError
      | Inl (Exception e) \<Rightarrow> Inr (None, None)
      | Inr ids \<Rightarrow> Inr ids)"

text \<open>
  The caller's test \<open>not event_id or not ticket_id\<close> (\<open>_run_monitor\<close>): an identifier
  that is \<open>None\<close> or the empty string counts as not found.
\<close>

definition not_found :: "string option \<times> string option \<Rightarrow> bool" where
  "not_found ids =
     (case ids of (event_id, ticket_id) \<Rightarrow>
        (event_id = None \<or> event_id = Some []) \<or> (ticket_id = None \<or> ticket_id = Some []))"

subsection \<open>\<open>_verify_cart_at_checkout\<close>\<close>

text \<open>
  The phrase lists. Strings are sequences of bytes, so the German u-umlaut of the
  first phrase is written as its two UTF-8 bytes.
\<close>

definition error_indicators :: "string list" where
  "error_indicators =
     [''nicht mehr verf'' @ [CHR 0xC3, CHR 0xBC] @ ''gbar'',
      ''Warenkorb ist leer'',
      ''leider nicht mehr'',
      ''ausverkauft'',
      ''Bedauerlicherweise'']"

definition success_indicators :: "string list" where
  "success_indicators =
     [''Zusammenfassung'',
      ''Zwischensumme'',
      ''Gesamtsumme'',
      ''Weiter zur Kasse'']"

text \<open>
  The answer to \<open>session.get(url)\<close> on the session of one bot, as a function of the
  URL: an exception, or a status code with the text of the page.
\<close>

type_synonym fetch = "string \<Rightarrow> exn + int \<times> string"

text \<open>The scan of a page that came back with status 200.\<close>

definition scan_checkout_html :: "string \<Rightarrow> bool" where
  "scan_checkout_html html =
     (if list_ex (\<lambda>indicator. str_in indicator html) error_indicators then False
      else if list_ex (\<lambda>indicator. str_in indicator html) success_indicators then True
      else False)"

text \<open>
  \<open>checkout_url\<close> is the value of the key of that name in the vendor's answer, any
  JSON value. The URL that is fetched: the cart page when the value is false, the
  value itself when it is a string. A value that is true but not a string makes
  \<open>session.get\<close> raise (\<open>None\<close> here), which the \<open>except\<close> clause answers with \<open>False\<close>.
\<close>

definition checkout_target :: "json \<Rightarrow> string option" where
  "checkout_target checkout_url =
     (if \<not> truthy checkout_url then Some (BASE_URL @ ''/checkout/cart'')
      else (case checkout_url of JStr u \<Rightarrow> Some u | _ \<Rightarrow> None))"

definition verify_cart_at_checkout :: "fetch \<Rightarrow> json \<Rightarrow> bool" where
  "verify_cart_at_checkout get checkout_url =
     (case checkout_target checkout_url of
        None \<Rightarrow> False
      | Some u \<Rightarrow>
          (case get u of
             Inl e \<Rightarrow> False
           | Inr (status_code, html) \<Rightarrow>
               if status_code = 200 then scan_checkout_html html else False))"

subsection \<open>\<open>_extract_session_cookie\<close>\<close>

text \<open>The cookie jar of the session, as \<open>cookies.items()\<close> lists it.\<close>

definition extract_session_cookie :: "(string \<times> string) list \<Rightarrow> CookieData option" where
  "extract_session_cookie cookies =
     (case find (\<lambda>(name, v). str_in ''frontend'' name) cookies of
        Some (name, v) \<Rightarrow>
          Some \<lparr>cookie_name = name, cookie_value = v,
                cookie_domain = ''audidefuehrungen2.regiondo.de''\<rparr>
      | None \<Rightarrow>
          (case cookies of
             [] \<Rightarrow> None
           | (name, v) # rest \<Rightarrow>
               Some \<lparr>cookie_name = name, cookie_value = v,
                     cookie_domain = ''audidefuehrungen2.regiondo.de''\<rparr>))"

subsection \<open>\<open>add_to_cart\<close>\<close>

text \<open>
  A text that ends up in a log line or in \<open>error_message\<close>: a string literal of the
  program, \<open>f"HTTP {status_code}"\<close>, a value taken from the vendor's answer, or
  \<open>str(e)\<close> of an exception.
\<close>

datatype errtext =
    Text string
  | Http_status int
  | Vendor_text json
  | Str_of_exn exn

text \<open>Truth value of such a text; the built-in exceptions have a non-empty text.\<close>

fun errtext_truthy :: "errtext \<Rightarrow> bool" where
  "errtext_truthy (Text s) = (s \<noteq> [])"
| "errtext_truthy (Http_status n) = True"
| "errtext_truthy (Vendor_text j) = truthy j"
| "errtext_truthy (Str_of_exn (RequestError s)) = (s \<noteq> [])"
| "errtext_truthy (Str_of_exn e) = True"

text \<open>
  What the vendor answers to the one client session of an attempt: the answer to the
  POST (an exception, or the status code with the decoded body, \<open>None\<close> when
  \<open>response.json()\<close> raises), the answers to GET requests, and the cookie jar the
  session holds afterwards. \<open>token_urlsafe\<close> and \<open>total_time\<close> are the values of
  \<open>secrets.token_urlsafe(32)\<close> and of the elapsed time in \<open>_attempt_atc\<close>.
\<close>

record atc_env =
  post_response :: "exn + int \<times> json option"
  session_get :: fetch
  session_cookies :: "(string \<times> string) list"
  token_urlsafe :: string
  total_time :: nat

type_synonym atc_result = "bool \<times> CookieData option \<times> errtext option"

text \<open>\<open>response_data['messages'][0].get('text', 'Unknown')\<close>, for a true \<open>messages\<close>.\<close>

fun first_message_text :: "json \<Rightarrow> exn + json" where
  "first_message_text (JList (JObj m # rest)) = Inr (dict_get m ''text'' (JStr ''Unknown''))"
| "first_message_text (JList (x # rest)) = Inl AttributeError"
| "first_message_text (JStr s) = Inl AttributeError"
| "first_message_text (JObj kvs) = Inl (KeyError (JInt 0))"
| "first_message_text j = Inl TypeError"

text \<open>The branch taken when the answer does not say \<open>success: true\<close>.\<close>

definition vendor_error :: "(string \<times> json) list \<Rightarrow> exn + atc_result" where
  "vendor_error response_data =
     (case map_of response_data ''messages'' of
        Some messages \<Rightarrow>
          if truthy messages then
            (case first_message_text messages of
               Inl e \<Rightarrow> Inl e
             | Inr error_msg \<Rightarrow> Inr (False, None, Some (Vendor_text error_msg)))
          else
            (case map_of response_data ''error'' of
               Some error_msg \<Rightarrow> Inr (False, None, Some (Vendor_text error_msg))
             | None \<Rightarrow> Inr (False, None, Some (Text ''Unknown error'')))
      | None \<Rightarrow>
          (case map_of response_data ''error'' of
             Some error_msg \<Rightarrow> Inr (False, None, Some (Vendor_text error_msg))
           | None \<Rightarrow> Inr (False, None, Some (Text ''Unknown error''))))"

text \<open>The branch taken when the answer says \<open>success: true\<close>.\<close>

definition vendor_success :: "atc_env \<Rightarrow> (string \<times> json) list \<Rightarrow> exn + atc_result" where
  "vendor_success env response_data =
     (let quote_item_ids = dict_get response_data ''qtm_quote_item_ids'' (JStr []);
          quote_item_qtys = dict_get response_data ''qtm_quote_item_qtys'' (JInt 0);
          checkout_url = dict_get response_data ''checkout_url'' (JStr [])
      in if truthy quote_item_ids \<and> truthy quote_item_qtys then
           (case py_int quote_item_qtys of
              Inl e \<Rightarrow> Inl e
            | Inr n \<Rightarrow>
                if n > 0 then
                  (let cart_valid = verify_cart_at_checkout (session_get env) checkout_url
                   in if cart_valid then
                        Inr (True, extract_session_cookie (session_cookies env), None)
                      else
                        Inr (False, None,
                             Some (Text ''Cart not valid at checkout (phantom cart)'')))
                else Inr (False, None, Some (Text ''No items added to cart (out of stock?)'')))
         else Inr (False, None, Some (Text ''No items added to cart (out of stock?)'')))"

text \<open>The body of the \<open>try\<close> block of \<open>add_to_cart\<close>.\<close>

definition add_to_cart_try :: "atc_env \<Rightarrow> exn + atc_result" where
  "add_to_cart_try env =
     (case post_response env of
        Inl e \<Rightarrow> Inl e
      | Inr (status_code, body) \<Rightarrow>
          if status_code = 200 then
            (case (case body of None \<Rightarrow> JObj [] | Some j \<Rightarrow> j) of
               JObj response_data \<Rightarrow>
                 if map_of response_data ''success'' = Some (JBool True)
                 then vendor_success env response_data
                 else vendor_error response_data
             | other \<Rightarrow> Inl AttributeError)
          else Inr (False, None, Some (Http_status status_code)))"

text \<open>The whole method: an exception becomes \<open>(False, None, str(e))\<close>.\<close>

definition add_to_cart :: "atc_env \<Rightarrow> atc_result" where
  "add_to_cart env =
     (case add_to_cart_try env of
        Inl e \<Rightarrow> (False, None, Some (Str_of_exn e))
      | Inr r \<Rightarrow> r)"

section \<open>Persistent data (\<open>models.py\<close>) and settings (\<open>config.py\<close>)\<close>

datatype TaskStatus = PENDING | RUNNING | SUCCESS | FAILED | STOPPED

text \<open>A reading of the clock (\<open>datetime.utcnow()\<close>), in seconds.\<close>

type_synonym timestamp = int

text \<open>A row of the table \<open>tasks\<close>; \<open>task_id\<close> is the column \<open>id\<close>.\<close>

record task =
  task_id :: int
  product_url :: string
  quantity :: int
  num_threads :: int
  status :: TaskStatus
  scan_count :: int
  tickets_available :: int
  last_scan_at :: "timestamp option"
  event_id :: "string option"
  ticket_id :: "string option"
  started_at :: "timestamp option"
  completed_at :: "timestamp option"
  error_message :: "errtext option"

text \<open>A row of the table \<open>cart_sessions\<close>.\<close>

record cart_session =
  cart_token :: string
  cart_task_id :: int
  cart_cookie_name :: string
  cart_cookie_value :: string
  cart_cookie_domain :: string
  cart_product_url :: string
  cart_checkout_url :: string
  cart_quantity :: int
  cart_total_time :: nat
  cart_expires_at :: timestamp

text \<open>
  The bot settings. \<open>default_scan_interval\<close> is a float that the program only hands to
  \<open>asyncio.sleep\<close>; the model names it (\<open>Scan_interval\<close> below) without a value.
\<close>

record settings =
  cart_hold_time :: int

definition default_settings :: settings where
  "default_settings = \<lparr>cart_hold_time = 1020\<rparr>"

section \<open>Availability snapshots\<close>

text \<open>
  The value under the key \<open>qty_available\<close> of a slot: the key may be missing, hold an
  integer, or hold something that is not a number.
\<close>

datatype qty = Qty_missing | Qty int | Qty_other

record slot =
  slot_time :: string
  qty_available :: qty
  traffic_light :: int
  variations :: "string list"

text \<open>
  The dict that \<open>get_available_tickets\<close> returns, in insertion order: date, then the
  slots of that date. Its keys are distinct.
\<close>

type_synonym snapshot = "(string \<times> slot list) list"

text \<open>\<open>a == b\<close> on two such dicts does not look at the order of the keys.\<close>

definition dict_eq :: "snapshot \<Rightarrow> snapshot \<Rightarrow> bool" where
  "dict_eq a b =
     (length a = length b \<and> list_all (\<lambda>(k, v). map_of b k = Some v) a)"

text \<open>\<open>data != previous_data\<close>, where \<open>previous_data\<close> may be \<open>None\<close>.\<close>

definition differs :: "snapshot \<Rightarrow> snapshot option \<Rightarrow> bool" where
  "differs data previous_data =
     (case previous_data of None \<Rightarrow> True | Some p \<Rightarrow> \<not> dict_eq data p)"

text \<open>\<open>max(0, t.get('qty_available', 0))\<close>; comparing a non-number with 0 raises.\<close>

fun clamped_qty :: "slot \<Rightarrow> exn + int" where
  "clamped_qty t =
     (case qty_available t of
        Qty_missing \<Rightarrow> Inr (max 0 0)
      | Qty n \<Rightarrow> Inr (max 0 n)
      | Qty_other \<Rightarrow> Inl TypeError)"

text \<open>\<open>sum(... for t in tickets)\<close>, stopping at the first exception.\<close>

fun sum_slots :: "slot list \<Rightarrow> exn + int" where
  "sum_slots [] = Inr 0"
| "sum_slots (t # ts) =
     (case clamped_qty t of
        Inl e \<Rightarrow> Inl e
      | Inr n \<Rightarrow> (case sum_slots ts of Inl e \<Rightarrow> Inl e | Inr m \<Rightarrow> Inr (n + m)))"

text \<open>\<open>sum(... for tickets in data.values())\<close>.\<close>

fun sum_dates :: "snapshot \<Rightarrow> exn + int" where
  "sum_dates [] = Inr 0"
| "sum_dates ((date, tickets) # rest) =
     (case sum_slots tickets of
        Inl e \<Rightarrow> Inl e
      | Inr n \<Rightarrow> (case sum_dates rest of Inl e \<Rightarrow> Inl e | Inr m \<Rightarrow> Inr (n + m)))"

text \<open>
  \<open>total_available\<close> as the loop computes it: 0 when \<open>data\<close> is \<open>None\<close> or empty, and
  0 when the sum raises.
\<close>

definition total_available :: "snapshot option \<Rightarrow> int" where
  "total_available data =
     (case data of
        None \<Rightarrow> 0
      | Some d \<Rightarrow>
          if d \<noteq> [] then (case sum_dates d of Inl e \<Rightarrow> 0 | Inr n \<Rightarrow> n) else 0)"

section \<open>The process state\<close>

text \<open>Log levels and the log lines of \<open>monitor.py\<close>, with the values they format.\<close>

datatype level = Level_info | Level_warning | Level_error | Level_success

datatype message =
    Started_monitoring string
  | Could_not_extract
  | Found_ids string string
  | Scan_tickets int int
  | Scan_no_tickets int
  | Change_detected int
  | Attempting_to_buy int string string int
  | Running_threads int int
  | Successfully_carted
  | Cart_hold_expired
  | Cookie_secured string nat
  | ATC_failed errtext

text \<open>The messages handed to \<open>TaskManager.broadcast\<close>.\<close>

datatype ws_message =
    Task_update int TaskStatus "errtext option"
  | Scan_update int int int timestamp
  | Cart_success int string int nat

text \<open>
  The argument of \<open>asyncio.sleep\<close>: a number of seconds, or the float setting
  \<open>default_scan_interval\<close>.
\<close>

datatype delay = Seconds int | Scan_interval

text \<open>
  What the program does to the outside, in the order it does it: a commit of a status
  column, a commit of the scan columns, a committed log row with its broadcast (\<open>_log\<close>), a broadcast, a sleep, the
  two Discord notifications, and an \<open>asyncio.gather\<close> over a number of add-to-cart
  attempts.
\<close>

datatype event =
    Commit_status int TaskStatus
  | Commit_scan int int int timestamp
  | Logged int level message
  | Broadcast ws_message
  | Sleep delay
  | Discord_availability snapshot string
  | Discord_cart_success string CookieData int nat string
  | Gather nat

text \<open>
  Where a monitor coroutine stands: created by \<open>asyncio.create_task\<close> and not yet run,
  suspended in the \<open>try\<close> block outside the cart hold (polling), suspended in the
  cart-hold sleep, or suspended in the broadcast that ends \<open>_mark_failed\<close>.
\<close>

datatype phase = Created | Polling | Holding | Failing

text \<open>
  The \<open>TaskManager\<close> (\<open>active_tasks\<close>, \<open>task_data\<close>), the event loop (the coroutines
  that have not finished, each with its handle, the task id it monitors and its phase;
  \<open>next_handle\<close> is the next fresh handle), the database (\<open>tasks\<close>, \<open>cart_sessions\<close>),
  and the trace of events.
\<close>

record world =
  active_tasks :: "int \<rightharpoonup> nat"
  task_data :: "int \<rightharpoonup> unit"
  coroutines :: "(nat \<times> int \<times> phase) list"
  next_handle :: nat
  tasks :: "int \<rightharpoonup> task"
  cart_sessions :: "cart_session list"
  trace :: "event list"

definition emit :: "event \<Rightarrow> world \<Rightarrow> world" where
  "emit ev w = w\<lparr>trace := trace w @ [ev]\<rparr>"

text \<open>\<open>TaskManager._log\<close> and \<open>TaskManager.broadcast\<close>.\<close>

definition log :: "int \<Rightarrow> level \<Rightarrow> message \<Rightarrow> world \<Rightarrow> world" where
  "log tid lvl msg w = emit (Logged tid lvl msg) w"

definition broadcast :: "ws_message \<Rightarrow> world \<Rightarrow> world" where
  "broadcast m w = emit (Broadcast m) w"

text \<open>
  \<open>task = db.query(Task)...first(); if task: task.status = s; ...; db.commit()\<close>: the
  row, when there is one, is changed by \<open>f\<close> and committed.
\<close>

definition set_status :: "int \<Rightarrow> TaskStatus \<Rightarrow> (task \<Rightarrow> task) \<Rightarrow> world \<Rightarrow> world" where
  "set_status tid s f w =
     (case tasks w tid of
        None \<Rightarrow> w
      | Some row \<Rightarrow>
          emit (Commit_status tid s) (w\<lparr>tasks := (tasks w)(tid \<mapsto> f (row\<lparr>status := s\<rparr>))\<rparr>))"

text \<open>The number of coroutines that monitor a task and have not finished.\<close>

definition instances :: "int \<Rightarrow> world \<Rightarrow> nat" where
  "instances tid w = length (filter (\<lambda>(h, t, p). t = tid) (coroutines w))"

section \<open>Task supervisor (\<open>TaskManager\<close> in \<open>bot/monitor.py\<close>)\<close>

subsection \<open>\<open>start_task\<close>\<close>

definition start_task :: "task \<Rightarrow> timestamp \<Rightarrow> world \<Rightarrow> bool \<times> world" where
  "start_task row now w =
     (if active_tasks w (task_id row) \<noteq> None then (False, w)
      else
        let tid = task_id row;
            w1 = emit (Commit_status tid RUNNING)
                   (w\<lparr>tasks := (tasks w)(tid \<mapsto> row\<lparr>status := RUNNING, started_at := Some now\<rparr>)\<rparr>);
            h = next_handle w1;
            w2 = w1\<lparr>coroutines := coroutines w1 @ [(h, tid, Created)],
                    next_handle := Suc h\<rparr>;
            w3 = w2\<lparr>active_tasks := (active_tasks w2)(tid \<mapsto> h),
                    task_data := (task_data w2)(tid \<mapsto> ())\<rparr>
        in (True, broadcast (Task_update tid RUNNING None) w3))"

subsection \<open>The exit of \<open>_run_monitor\<close> and cancellation\<close>

text \<open>The \<open>finally\<close> clause of \<open>_run_monitor\<close>.\<close>

definition run_monitor_finally :: "int \<Rightarrow> world \<Rightarrow> world" where
  "run_monitor_finally tid w =
     w\<lparr>active_tasks := (active_tasks w)(tid := None),
       task_data := (task_data w)(tid := None)\<rparr>"

text \<open>
  \<open>handle.cancel()\<close> followed by \<open>await handle\<close>. A coroutine that never ran is thrown
  away without running any of its code. One that is suspended inside the \<open>try\<close> block
  receives \<open>CancelledError\<close> there, re-raises it and runs its \<open>finally\<close> clause. A
  handle whose coroutine has finished is left as it is.
\<close>

definition cancel_and_await :: "nat \<Rightarrow> world \<Rightarrow> world" where
  "cancel_and_await h w =
     (case map_of (coroutines w) h of
        None \<Rightarrow> w
      | Some (tid, ph) \<Rightarrow>
          let w1 = w\<lparr>coroutines := filter (\<lambda>(h', c). h' \<noteq> h) (coroutines w)\<rparr>
          in if ph = Created then w1 else run_monitor_finally tid w1)"

subsection \<open>\<open>stop_task\<close>\<close>

text \<open>
  The first half: cancel, await, then \<open>del self.active_tasks[task_id]\<close>, which raises
  \<open>KeyError\<close> when the key is no longer there, and the removal from \<open>task_data\<close>.
\<close>

definition stop_task_cancel :: "int \<Rightarrow> world \<Rightarrow> exn option \<times> world" where
  "stop_task_cancel tid w =
     (case active_tasks w tid of
        None \<Rightarrow> (None, w)
      | Some h \<Rightarrow>
          let w1 = cancel_and_await h w
          in if active_tasks w1 tid = None then (Some (KeyError (JInt tid)), w1)
             else (None, w1\<lparr>active_tasks := (active_tasks w1)(tid := None),
                            task_data := (task_data w1)(tid := None)\<rparr>))"

text \<open>
  The whole method. An exception leaves \<open>stop_task\<close> before the database is touched;
  the state reached by then is returned with it.
\<close>

definition stop_task :: "int \<Rightarrow> timestamp \<Rightarrow> world \<Rightarrow> (exn + bool) \<times> world" where
  "stop_task tid now w =
     (let was_active = (active_tasks w tid \<noteq> None)
      in case stop_task_cancel tid w of
           (Some e, w1) \<Rightarrow> (Inl e, w1)
         | (None, w1) \<Rightarrow>
             (case tasks w1 tid of
                Some row \<Rightarrow>
                  if status row = RUNNING then
                    (Inr True,
                     broadcast (Task_update tid STOPPED None)
                       (set_status tid STOPPED (\<lambda>r. r\<lparr>completed_at := Some now\<rparr>) w1))
                  else (Inr was_active, w1)
              | None \<Rightarrow> (Inr was_active, w1)))"

subsection \<open>\<open>_mark_failed\<close>\<close>

definition mark_failed :: "int \<Rightarrow> errtext \<Rightarrow> timestamp \<Rightarrow> world \<Rightarrow> world" where
  "mark_failed tid err now w =
     (let w1 = set_status tid FAILED
                 (\<lambda>r. r\<lparr>error_message := Some err, completed_at := Some now\<rparr>) w;
          w2 = w1\<lparr>active_tasks := (active_tasks w1)(tid := None)\<rparr>
      in broadcast (Task_update tid FAILED (Some err)) w2)"

section \<open>Task runtime (\<open>TaskManager._run_monitor\<close>)\<close>

text \<open>The arguments of the coroutine, fixed when the task is started.\<close>

record monitor_args =
  arg_task_id :: int
  arg_product_url :: string
  arg_quantity :: int
  arg_num_threads :: int

text \<open>The local variables of the polling loop.\<close>

record locals =
  loc_scan_count :: int
  loc_previous_data :: "snapshot option"
  loc_no_tickets_logged :: bool

text \<open>
  What the outside answers during one cycle of the loop: the result of
  \<open>get_available_tickets\<close>, the reading of the clock, the result of
  \<open>get_option_number\<close> for a variation, a date and a time, and, for the slot at a
  date and time, the environment of each add-to-cart attempt by its index.
\<close>

record poll_env =
  poll_result :: "snapshot option"
  utcnow :: timestamp
  option_number :: "string \<Rightarrow> string \<Rightarrow> string \<Rightarrow> string option"
  attempt_env :: "string \<Rightarrow> string \<Rightarrow> nat \<Rightarrow> atc_env"

subsection \<open>\<open>_attempt_atc\<close>\<close>

definition attempt_atc ::
  "settings \<Rightarrow> monitor_args \<Rightarrow> timestamp \<Rightarrow> atc_env \<Rightarrow> world \<Rightarrow> bool \<times> world" where
  "attempt_atc cfg a now env w =
     (case add_to_cart env of
        (success, cookie, err) \<Rightarrow>
          (case (if success then cookie else None) of
             Some c \<Rightarrow>
               let w1 = log (arg_task_id a) Level_success
                          (Cookie_secured (cookie_name c) (total_time env)) w;
                   session = \<lparr>cart_token = token_urlsafe env,
                              cart_task_id = arg_task_id a,
                              cart_cookie_name = cookie_name c,
                              cart_cookie_value = cookie_value c,
                              cart_cookie_domain = cookie_domain c,
                              cart_product_url = arg_product_url a,
                              cart_checkout_url =
                                ''https://audidefuehrungen2.regiondo.de/checkout/cart'',
                              cart_quantity = arg_quantity a,
                              cart_total_time = total_time env,
                              cart_expires_at = now + cart_hold_time cfg\<rparr>;
                   w2 = w1\<lparr>cart_sessions := cart_sessions w1 @ [session]\<rparr>;
                   w3 = broadcast (Cart_success (arg_task_id a) (token_urlsafe env)
                                     (arg_quantity a) (total_time env)) w2;
                   w4 = emit (Discord_cart_success (arg_product_url a) c (arg_quantity a)
                                (total_time env) (token_urlsafe env)) w3
               in (True, w4)
           | None \<Rightarrow>
               (False,
                case err of
                  Some t \<Rightarrow>
                    if errtext_truthy t then log (arg_task_id a) Level_warning (ATC_failed t) w
                    else w
                | None \<Rightarrow> w)))"

subsection \<open>The race\<close>

text \<open>\<open>max_possible_carts = qty_available // quantity\<close>.\<close>

definition max_possible_carts :: "int \<Rightarrow> int \<Rightarrow> exn + int" where
  "max_possible_carts avail wanted =
     (if wanted = 0 then Inl ZeroDivisionError else Inr (avail div wanted))"

text \<open>\<open>actual_threads = min(num_threads, max(1, max_possible_carts))\<close>.\<close>

definition actual_threads :: "int \<Rightarrow> int \<Rightarrow> int" where
  "actual_threads threads carts = min threads (max 1 carts)"

text \<open>
  The coroutines of \<open>for _ in range(actual_threads)\<close>, run by \<open>asyncio.gather\<close>: one
  attempt for each index from \<open>i\<close> on, \<open>n\<close> of them, each on its own environment. The
  model runs them in the order of their index.
\<close>

fun gather_attempts ::
  "settings \<Rightarrow> monitor_args \<Rightarrow> timestamp \<Rightarrow> (nat \<Rightarrow> atc_env) \<Rightarrow> nat \<Rightarrow> nat \<Rightarrow> world
     \<Rightarrow> bool list \<times> world" where
  "gather_attempts cfg a now envs i 0 w = ([], w)"
| "gather_attempts cfg a now envs i (Suc n) w =
     (case attempt_atc cfg a now (envs i) w of
        (r, w1) \<Rightarrow>
          (case gather_attempts cfg a now envs (Suc i) n w1 of
             (rs, w2) \<Rightarrow> (r # rs, w2)))"

text \<open>\<open>range(k)\<close> has \<open>k\<close> elements, and none when \<open>k\<close> is negative.\<close>

definition run_race ::
  "settings \<Rightarrow> monitor_args \<Rightarrow> timestamp \<Rightarrow> (nat \<Rightarrow> atc_env) \<Rightarrow> int \<Rightarrow> world
     \<Rightarrow> bool list \<times> world" where
  "run_race cfg a now envs threads w =
     gather_attempts cfg a now envs 0 (nat threads) (emit (Gather (nat threads)) w)"

text \<open>
  The race for one slot with \<open>qty_available\<close> tickets, from the computation of
  \<open>max_possible_carts\<close> to the results of \<open>asyncio.gather\<close>.
\<close>

definition race_slot ::
  "settings \<Rightarrow> monitor_args \<Rightarrow> poll_env \<Rightarrow> string \<Rightarrow> slot \<Rightarrow> int \<Rightarrow> world
     \<Rightarrow> (exn + bool list) \<times> world" where
  "race_slot cfg a e date ticket avail w =
     (case max_possible_carts avail (arg_quantity a) of
        Inl ex \<Rightarrow> (Inl ex, w)
      | Inr carts \<Rightarrow>
          let threads = actual_threads (arg_num_threads a) carts;
              w1 = log (arg_task_id a) Level_info (Running_threads threads carts) w
          in (case run_race cfg a (utcnow e) (attempt_env e date (slot_time ticket)) threads w1 of
                (results, w2) \<Rightarrow> (Inr results, w2)))"

subsection \<open>After a race that carted\<close>

text \<open>
  The block under \<open>if any(r is True ...)\<close>: status \<open>success\<close>, the cart-hold sleep,
  status \<open>running\<close> again, and the reset of the loop's variables.
\<close>

definition hold_and_recart ::
  "settings \<Rightarrow> monitor_args \<Rightarrow> timestamp \<Rightarrow> locals \<Rightarrow> world \<Rightarrow> locals \<times> world" where
  "hold_and_recart cfg a now l w =
     (let tid = arg_task_id a;
          w1 = log tid Level_success Successfully_carted w;
          w2 = set_status tid SUCCESS (\<lambda>r. r\<lparr>completed_at := Some now\<rparr>) w1;
          w3 = broadcast (Task_update tid SUCCESS None) w2;
          w4 = emit (Sleep (Seconds (cart_hold_time cfg))) w3;
          w5 = log tid Level_info Cart_hold_expired w4;
          w6 = set_status tid RUNNING (\<lambda>r. r\<lparr>completed_at := None\<rparr>) w5;
          w7 = broadcast (Task_update tid RUNNING None) w6
      in (l\<lparr>loc_scan_count := 0, loc_previous_data := None,
             loc_no_tickets_logged := False\<rparr>, w7))"

subsection \<open>The two \<open>for\<close> loops over the snapshot\<close>

text \<open>
  \<open>for ticket in tickets\<close>. The result is an exception, or whether the loop was left
  by \<open>break\<close>, with the loop's variables. The \<open>continue\<close> after the cart hold belongs
  to this loop: it goes on with the next slot of the same snapshot.
\<close>

fun scan_tickets ::
  "settings \<Rightarrow> monitor_args \<Rightarrow> poll_env \<Rightarrow> string \<Rightarrow> slot list \<Rightarrow> locals \<Rightarrow> world
     \<Rightarrow> (exn + bool \<times> locals) \<times> world" where
  "scan_tickets cfg a e date [] l w = (Inr (False, l), w)"
| "scan_tickets cfg a e date (ticket # rest) l w =
     (case qty_available ticket of
        Qty_missing \<Rightarrow> (Inl (KeyError (JStr ''qty_available'')), w)
      | Qty_other \<Rightarrow> (Inl TypeError, w)
      | Qty avail \<Rightarrow>
          if avail \<ge> arg_quantity a then
            let w1 = log (arg_task_id a) Level_info
                       (Attempting_to_buy (arg_quantity a) date (slot_time ticket) avail) w;
                variation = (if variations ticket \<noteq> [] then hd (variations ticket) else [])
            in if variation = [] then scan_tickets cfg a e date rest l w1
               else
                 (case option_number e variation date (slot_time ticket) of
                    None \<Rightarrow> scan_tickets cfg a e date rest l w1
                  | Some opt \<Rightarrow>
                      if opt = [] then scan_tickets cfg a e date rest l w1
                      else
                        (case race_slot cfg a e date ticket avail w1 of
                           (Inl ex, w2) \<Rightarrow> (Inl ex, w2)
                         | (Inr results, w2) \<Rightarrow>
                             if True \<in> set results then
                               (case hold_and_recart cfg a (utcnow e) l w2 of
                                  (l', w3) \<Rightarrow> scan_tickets cfg a e date rest l' w3)
                             else (Inr (True, l), w2)))
          else scan_tickets cfg a e date rest l w)"

text \<open>
  \<open>for date, tickets in data.items()\<close>, with its \<open>else: continue\<close> and \<open>break\<close>: a
  \<open>break\<close> of the inner loop ends this one as well.
\<close>

fun scan_dates ::
  "settings \<Rightarrow> monitor_args \<Rightarrow> poll_env \<Rightarrow> snapshot \<Rightarrow> locals \<Rightarrow> world
     \<Rightarrow> (exn + locals) \<times> world" where
  "scan_dates cfg a e [] l w = (Inr l, w)"
| "scan_dates cfg a e ((date, tickets) # rest) l w =
     (case scan_tickets cfg a e date tickets l w of
        (Inl ex, w1) \<Rightarrow> (Inl ex, w1)
      | (Inr (broke, l1), w1) \<Rightarrow>
          if broke then (Inr l1, w1) else scan_dates cfg a e rest l1 w1)"

subsection \<open>One cycle of the polling loop\<close>

text \<open>
  The part of the cycle that does not look at what the poll returned beyond its
  total: \<open>scan_count += 1\<close>, the computation of \<open>total_available\<close>, the update of the
  task's row and the \<open>scan_update\<close> broadcast.
\<close>

definition record_scan :: "monitor_args \<Rightarrow> poll_env \<Rightarrow> locals \<Rightarrow> world \<Rightarrow> locals \<times> world" where
  "record_scan a e l w =
     (let tid = arg_task_id a;
          n = loc_scan_count l + 1;
          tot = total_available (poll_result e);
          w1 = (case tasks w tid of
                  None \<Rightarrow> w
                | Some row \<Rightarrow>
                    emit (Commit_scan tid n tot (utcnow e))
                      (w\<lparr>tasks := (tasks w)(tid \<mapsto>
                           row\<lparr>scan_count := n, tickets_available := tot,
                               last_scan_at := Some (utcnow e)\<rparr>)\<rparr>));
          w2 = broadcast (Scan_update tid n tot (utcnow e)) w1
      in (l\<lparr>loc_scan_count := n\<rparr>, w2))"

text \<open>The status line on the first scan and on every fiftieth.\<close>

definition periodic_log :: "monitor_args \<Rightarrow> int \<Rightarrow> locals \<Rightarrow> world \<Rightarrow> locals \<times> world" where
  "periodic_log a tot l w =
     (let n = loc_scan_count l
      in if n = 1 \<or> n mod 50 = 0 then
           (if tot > 0 then
              (l\<lparr>loc_no_tickets_logged := False\<rparr>,
               log (arg_task_id a) Level_info (Scan_tickets n tot) w)
            else if \<not> loc_no_tickets_logged l \<or> n = 1 then
              (l\<lparr>loc_no_tickets_logged := True\<rparr>,
               log (arg_task_id a) Level_info (Scan_no_tickets n) w)
            else (l, w))
         else (l, w))"

text \<open>
  The \<open>if\<close> / \<open>elif\<close> on the snapshot and the sleep of the normal scan interval that
  ends the cycle. An exception leaves the loop. When \<open>data\<close> is \<open>None\<close> the \<open>if\<close> fails
  and the \<open>elif\<close> holds; when it is a dict the \<open>elif\<close> asks for one that is true and
  of length 0.
\<close>

definition process_snapshot ::
  "settings \<Rightarrow> monitor_args \<Rightarrow> poll_env \<Rightarrow> locals \<Rightarrow> world \<Rightarrow> (exn + locals) \<times> world" where
  "process_snapshot cfg a e l w =
     (let tot = total_available (poll_result e)
      in case poll_result e of
           None \<Rightarrow> (Inr l, emit (Sleep Scan_interval) (emit (Sleep (Seconds 5)) w))
         | Some d \<Rightarrow>
             if d \<noteq> [] \<and> tot > 0 \<and> differs d (loc_previous_data l) then
               (let l1 = l\<lparr>loc_previous_data := Some d, loc_no_tickets_logged := False\<rparr>;
                    w1 = log (arg_task_id a) Level_info (Change_detected tot) w;
                    w2 = emit (Discord_availability d (arg_product_url a)) w1
                in case scan_dates cfg a e d l1 w2 of
                     (Inl ex, w3) \<Rightarrow> (Inl ex, w3)
                   | (Inr l2, w3) \<Rightarrow> (Inr l2, emit (Sleep Scan_interval) w3))
             else if d \<noteq> [] \<and> length d = 0 then
               (Inr l, emit (Sleep Scan_interval) (emit (Sleep (Seconds 5)) w))
             else (Inr l, emit (Sleep Scan_interval) w))"

text \<open>The body of \<open>while True\<close>.\<close>

definition monitor_iteration ::
  "settings \<Rightarrow> monitor_args \<Rightarrow> poll_env \<Rightarrow> locals \<Rightarrow> world \<Rightarrow> (exn + locals) \<times> world" where
  "monitor_iteration cfg a e l w =
     (case record_scan a e l w of
        (l1, w1) \<Rightarrow>
          (case periodic_log a (total_available (poll_result e)) l1 w1 of
             (l2, w2) \<Rightarrow> process_snapshot cfg a e l2 w2))"

subsection \<open>The coroutine as a whole\<close>

text \<open>
  The \<open>except Exception\<close> and \<open>finally\<close> clauses: the task is marked failed with
  \<open>str(e)\<close> and the manager's entries are removed.
\<close>

definition run_monitor_failed :: "int \<Rightarrow> exn \<Rightarrow> timestamp \<Rightarrow> world \<Rightarrow> world" where
  "run_monitor_failed tid ex now w =
     run_monitor_finally tid (mark_failed tid (Str_of_exn ex) now w)"

text \<open>
  The loop over the cycles the outside offers; when they are used up the coroutine is
  still polling. The result says whether it has finished, and if so, by which exception.
\<close>

fun poll_loop ::
  "settings \<Rightarrow> monitor_args \<Rightarrow> poll_env list \<Rightarrow> locals \<Rightarrow> world \<Rightarrow> exn option \<times> world" where
  "poll_loop cfg a [] l w = (None, w)"
| "poll_loop cfg a (e # es) l w =
     (case monitor_iteration cfg a e l w of
        (Inl ex, w1) \<Rightarrow> (Some ex, run_monitor_failed (arg_task_id a) ex (utcnow e) w1)
      | (Inr l1, w1) \<Rightarrow> poll_loop cfg a es l1 w1)"

text \<open>
  The start of \<open>_run_monitor\<close>: the first log line, the extraction of the identifiers,
  the exit when they are not found, else their storage in the row. The result holds the
  identifiers when the polling loop is to be entered. A cancellation during the
  extraction is re-raised by \<open>except asyncio.CancelledError\<close> and leaves through the
  \<open>finally\<close> clause.
\<close>

definition monitor_startup ::
  "monitor_args \<Rightarrow> page_response \<Rightarrow> timestamp \<Rightarrow> world \<Rightarrow> (string \<times> string) option \<times> world" where
  "monitor_startup a response now w =
     (let tid = arg_task_id a;
          w1 = log tid Level_info (Started_monitoring (arg_product_url a)) w
      in case extract_event_details response of
           Inl CancelledError \<Rightarrow> (None, run_monitor_finally tid w1)
         | Inl (Exception ex) \<Rightarrow> (None, run_monitor_failed tid ex now w1)
         | Inr ids \<Rightarrow>
             if not_found ids then
               (None,
                run_monitor_finally tid
                  (mark_failed tid (Text ''Could not extract Event/Ticket ID'') now
                     (log tid Level_error Could_not_extract w1)))
             else
               (let ev = the (fst ids); tk = the (snd ids);
                    w2 = (case tasks w1 tid of
                            None \<Rightarrow> w1
                          | Some row \<Rightarrow>
                              w1\<lparr>tasks := (tasks w1)(tid \<mapsto>
                                    row\<lparr>event_id := Some ev, ticket_id := Some tk\<rparr>)\<rparr>)
                in (Some (ev, tk), log tid Level_info (Found_ids ev tk) w2)))"

subsection \<open>The turns of a coroutine\<close>

text \<open>
  The event loop runs one coroutine at a time, from one \<open>await\<close> that suspends to the
  next; the request handlers run in between. The turns below are those that change
  \<open>active_tasks\<close> or end the coroutine.
\<close>

definition set_phase :: "nat \<Rightarrow> phase \<Rightarrow> world \<Rightarrow> world" where
  "set_phase h ph w =
     w\<lparr>coroutines :=
         map (\<lambda>(h', tid, p). if h' = h then (h', tid, ph) else (h', tid, p)) (coroutines w)\<rparr>"

text \<open>The first turn: the coroutine enters the \<open>try\<close> block and suspends in it.\<close>

definition coroutine_starts :: "nat \<Rightarrow> world \<Rightarrow> world" where
  "coroutine_starts h w =
     (case map_of (coroutines w) h of
        Some (tid, Created) \<Rightarrow> set_phase h Polling w
      | _ \<Rightarrow> w)"

text \<open>
  \<open>_mark_failed\<close>, called when the identifiers are not found or by \<open>except Exception\<close>,
  up to the \<open>await\<close> in its broadcast: the row is marked, the entry in \<open>active_tasks\<close> is
  deleted, and the coroutine is suspended while the message is sent.
\<close>

definition coroutine_fails :: "nat \<Rightarrow> errtext \<Rightarrow> timestamp \<Rightarrow> world \<Rightarrow> world" where
  "coroutine_fails h err now w =
     (case map_of (coroutines w) h of
        Some (tid, Polling) \<Rightarrow> set_phase h Failing (mark_failed tid err now w)
      | _ \<Rightarrow> w)"

text \<open>
  The message is sent: \<open>_mark_failed\<close> returns, and the coroutine leaves the \<open>try\<close>
  statement through its \<open>finally\<close> clause and ends.
\<close>

definition coroutine_returns :: "nat \<Rightarrow> world \<Rightarrow> world" where
  "coroutine_returns h w =
     (case map_of (coroutines w) h of
        Some (tid, Failing) \<Rightarrow>
          run_monitor_finally tid
            (w\<lparr>coroutines := filter (\<lambda>(h', c). h' \<noteq> h) (coroutines w)\<rparr>)
      | _ \<Rightarrow> w)"

section \<open>Task endpoints (\<open>api/tasks.py\<close>)\<close>

text \<open>The request body \<open>TaskCreate\<close> and \<open>HTTPException(status, detail)\<close>.\<close>

record TaskCreate =
  req_product_url :: string
  req_quantity :: int
  req_num_threads :: int

datatype http_error = HTTPException int string

subsection \<open>\<open>create_task\<close>\<close>

text \<open>
  The body of the handler. \<open>new_id\<close> is the primary key the database gives the new
  row; the other columns take their defaults.
\<close>

definition create_task :: "TaskCreate \<Rightarrow> int \<Rightarrow> world \<Rightarrow> (http_error + task) \<times> world" where
  "create_task task_create new_id w =
     (if \<not> str_in ''audidefuehrungen2.regiondo.de'' (req_product_url task_create) then
        (Inl (HTTPException 400 ''Invalid product URL''), w)
      else if \<not> (1 \<le> req_quantity task_create \<and> req_quantity task_create \<le> 4) then
        (Inl (HTTPException 400 ''Quantity must be between 1 and 4''), w)
      else
        let row = \<lparr>task_id = new_id,
                   product_url = req_product_url task_create,
                   quantity = req_quantity task_create,
                   num_threads = req_num_threads task_create,
                   status = PENDING,
                   scan_count = 0,
                   tickets_available = 0,
                   last_scan_at = None,
                   event_id = None,
                   ticket_id = None,
                   started_at = None,
                   completed_at = None,
                   error_message = None\<rparr>
        in (Inr row, w\<lparr>tasks := (tasks w)(new_id \<mapsto> row)\<rparr>))"

subsection \<open>\<open>start_task\<close> (the endpoint)\<close>

text \<open>\<open>async_task.done()\<close>: the handle's coroutine is no longer among the live ones.\<close>

definition handle_done :: "nat \<Rightarrow> world \<Rightarrow> bool" where
  "handle_done h w = (map_of (coroutines w) h = None)"

text \<open>
  The first check: an entry whose coroutine is done is removed; a live one answers
  "Task already running" (\<open>None\<close> here means: go on).
\<close>

definition clean_stale :: "int \<Rightarrow> world \<Rightarrow> string option \<times> world" where
  "clean_stale tid w =
     (case active_tasks w tid of
        None \<Rightarrow> (None, w)
      | Some h \<Rightarrow>
          if handle_done h w then
            (None, w\<lparr>active_tasks := (active_tasks w)(tid := None),
                     task_data := (task_data w)(tid := None)\<rparr>)
          else (Some ''Task already running'', w))"

text \<open>
  The second check, on the row's status: \<open>running\<close> with an entry answers "Task already
  running"; \<open>running\<close> without one is reset to \<open>pending\<close> and committed.
\<close>

definition reconcile :: "int \<Rightarrow> task \<Rightarrow> world \<Rightarrow> string option \<times> task \<times> world" where
  "reconcile tid row w =
     (if status row = RUNNING then
        (if active_tasks w tid \<noteq> None then (Some ''Task already running'', row, w)
         else
           (None, row\<lparr>status := PENDING\<rparr>,
            emit (Commit_status tid PENDING)
              (w\<lparr>tasks := (tasks w)(tid \<mapsto> row\<lparr>status := PENDING\<rparr>)\<rparr>)))
      else (None, row, w))"

definition start_task_endpoint ::
  "int \<Rightarrow> timestamp \<Rightarrow> world \<Rightarrow> (http_error + string) \<times> world" where
  "start_task_endpoint tid now w =
     (case tasks w tid of
        None \<Rightarrow> (Inl (HTTPException 404 ''Task not found''), w)
      | Some row \<Rightarrow>
          (case clean_stale tid w of
             (Some msg, w1) \<Rightarrow> (Inr msg, w1)
           | (None, w1) \<Rightarrow>
               (case reconcile tid row w1 of
                  (Some msg, row1, w2) \<Rightarrow> (Inr msg, w2)
                | (None, row1, w2) \<Rightarrow>
                    (case start_task row1 now w2 of
                       (success, w3) \<Rightarrow>
                         if \<not> success then
                           (if active_tasks w3 tid \<noteq> None
                            then (Inr ''Task already running'', w3)
                            else (Inl (HTTPException 500 ''Failed to start task''), w3))
                         else (Inr ''Task started'', w3)))))"

subsection \<open>\<open>stop_task\<close> (the endpoint)\<close>

definition stop_task_endpoint ::
  "int \<Rightarrow> timestamp \<Rightarrow> world \<Rightarrow> (exn + http_error + string) \<times> world" where
  "stop_task_endpoint tid now w =
     (case stop_task tid now w of
        (Inl ex, w1) \<Rightarrow> (Inl ex, w1)
      | (Inr success, w1) \<Rightarrow>
          if \<not> success then (Inr (Inl (HTTPException 400 ''Task is not running'')), w1)
          else (Inr (Inr ''Task stopped''), w1))"

section \<open>Notions used in the properties\<close>

subsection \<open>Observations on a state\<close>

text \<open>The scan columns of a task's row.\<close>

definition scan_info :: "world \<Rightarrow> int \<Rightarrow> (int \<times> int \<times> timestamp option) option" where
  "scan_info w tid =
     map_option (\<lambda>r. (scan_count r, tickets_available r, last_scan_at r)) (tasks w tid)"

text \<open>
  A later state of the same run: the trace has only grown and the scan columns are as
  they were.
\<close>

definition evolves :: "world \<Rightarrow> world \<Rightarrow> bool" where
  "evolves w w' = (prefix (trace w) (trace w') \<and> scan_info w' = scan_info w)"

text \<open>The events that start a race.\<close>

fun is_gather :: "event \<Rightarrow> bool" where
  "is_gather (Gather n) = True"
| "is_gather ev = False"

text \<open>What a piece of the program has added to the trace of \<open>w\<close> on the way to \<open>w'\<close>.\<close>

definition new_events :: "world \<Rightarrow> world \<Rightarrow> event list" where
  "new_events w w' = drop (length (trace w)) (trace w')"

text \<open>A snapshot without strictly positive availability; no snapshot at all counts too.\<close>

fun slot_not_positive :: "slot \<Rightarrow> bool" where
  "slot_not_positive t = (case qty_available t of Qty n \<Rightarrow> n \<le> 0 | _ \<Rightarrow> True)"

definition no_positive_availability :: "snapshot option \<Rightarrow> bool" where
  "no_positive_availability data =
     (case data of
        None \<Rightarrow> True
      | Some d \<Rightarrow> list_all (\<lambda>(date, tickets). list_all slot_not_positive tickets) d)"

text \<open>
  The quantity a snapshot shows, said without the program's loop: the sum over all
  slots of the quantities, a negative one or a missing one counting 0. When some slot
  has a quantity that is not a number, or when there is no snapshot, the program
  records 0.
\<close>

definition shown_quantity :: "slot \<Rightarrow> int" where
  "shown_quantity t = (case qty_available t of Qty n \<Rightarrow> max 0 n | _ \<Rightarrow> 0)"

definition numeric :: "snapshot \<Rightarrow> bool" where
  "numeric d =
     list_all (\<lambda>(date, tickets). list_all (\<lambda>t. qty_available t \<noteq> Qty_other) tickets) d"

definition last_observed :: "snapshot option \<Rightarrow> int" where
  "last_observed data =
     (case data of
        None \<Rightarrow> 0
      | Some d \<Rightarrow>
          if numeric d
          then sum_list (map (\<lambda>(date, tickets). sum_list (map shown_quantity tickets)) d)
          else 0)"

text \<open>
  A marker of the product page that \<open>extract_event_details\<close> cannot use: the element
  is absent, it lacks the attribute, or the attribute is empty.
\<close>

definition marker_missing :: "string option option \<Rightarrow> bool" where
  "marker_missing m = (m = None \<or> m = Some None \<or> m = Some (Some []))"

subsection \<open>Runs of the process\<close>

text \<open>
  What happens in the process, one turn after the other: a request to the start or the
  stop endpoint, or a turn of the coroutine with a given handle.
\<close>

datatype turn =
    Request_start int timestamp
  | Request_stop int timestamp
  | First_turn nat
  | Failure nat errtext timestamp
  | Return nat

fun take_turn :: "turn \<Rightarrow> world \<Rightarrow> world" where
  "take_turn (Request_start tid now) w = snd (start_task_endpoint tid now w)"
| "take_turn (Request_stop tid now) w = snd (stop_task_endpoint tid now w)"
| "take_turn (First_turn h) w = coroutine_starts h w"
| "take_turn (Failure h err now) w = coroutine_fails h err now w"
| "take_turn (Return h) w = coroutine_returns h w"

definition run_turns :: "turn list \<Rightarrow> world \<Rightarrow> world" where
  "run_turns ts w = fold take_turn ts w"

text \<open>The process right after its start, on a database \<open>db\<close>.\<close>

definition new_manager :: "(int \<rightharpoonup> task) \<Rightarrow> world" where
  "new_manager db =
     \<lparr>active_tasks = Map.empty, task_data = Map.empty, coroutines = [], next_handle = 0,
      tasks = db, cart_sessions = [], trace = []\<rparr>"

subsection \<open>A concrete scenario\<close>

text \<open>
  Task 7 asks for four tickets with five threads. Its row says \<open>running\<close>; in
  \<open>restarted_world\<close> the process has just come up, so nothing monitors it. In
  \<open>polling_world\<close> the task has been started from there and its coroutine has begun
  to run. In \<open>hold_world\<close> its coroutine sleeps in the cart hold.
\<close>

definition example_row :: task where
  "example_row =
     \<lparr>task_id = 7, product_url = ''https://audidefuehrungen2.regiondo.de/tour'',
      quantity = 4, num_threads = 5, status = RUNNING, scan_count = 0,
      tickets_available = 0, last_scan_at = None, event_id = None, ticket_id = None,
      started_at = None, completed_at = None, error_message = None\<rparr>"

definition example_args :: monitor_args where
  "example_args =
     \<lparr>arg_task_id = 7, arg_product_url = ''https://audidefuehrungen2.regiondo.de/tour'',
      arg_quantity = 4, arg_num_threads = 5\<rparr>"

definition restarted_world :: world where
  "restarted_world = new_manager [7 \<mapsto> example_row]"

definition polling_world :: world where
  "polling_world = run_turns [Request_start 7 1, First_turn 0] restarted_world"

text \<open>
  A run from \<open>restarted_world\<close>: task 7 is started; its coroutine runs, finds no
  identifiers on the product page and is suspended in the broadcast of \<open>_mark_failed\<close>;
  a second request starts the task; the first coroutine ends; a third request starts
  the task.
\<close>

definition overlapping_run :: "turn list" where
  "overlapping_run =
     [Request_start 7 1, First_turn 0,
      Failure 0 (Text ''Could not extract Event/Ticket ID'') 2,
      Request_start 7 3, Return 0, Request_start 7 4]"

definition hold_world :: world where
  "hold_world =
     \<lparr>active_tasks = [7 \<mapsto> 0], task_data = [7 \<mapsto> ()], coroutines = [(0, 7, Holding)],
      next_handle = 1, tasks = [7 \<mapsto> example_row\<lparr>status := SUCCESS\<rparr>],
      cart_sessions = [], trace = []\<rparr>"

text \<open>
  The vendor says yes to the POST, and the checkout page then shows a summary that
  says sold out (\<open>phantom_env\<close>) or a summary only (\<open>carting_env\<close>).
\<close>

definition phantom_env :: atc_env where
  "phantom_env =
     \<lparr>post_response = Inr (200, Some (JObj [(''success'', JBool True),
          (''qtm_quote_item_ids'', JStr ''4711''), (''qtm_quote_item_qtys'', JStr ''2'')])),
      session_get = (\<lambda>u. Inr (200, ''Zusammenfassung: leider ausverkauft'')),
      session_cookies = [(''frontend'', ''abc'')],
      token_urlsafe = ''tok'',
      total_time = 3\<rparr>"

definition carting_env :: atc_env where
  "carting_env = phantom_env\<lparr>session_get := (\<lambda>u. Inr (200, ''Zusammenfassung''))\<rparr>"

text \<open>A poll that finds one slot with ten tickets, and one that finds none to buy.\<close>

definition example_slot :: slot where
  "example_slot =
     \<lparr>slot_time = ''10:00'', qty_available = Qty 10, traffic_light = 1,
      variations = [''55'']\<rparr>"

definition example_poll :: poll_env where
  "example_poll =
     \<lparr>poll_result = Some [(''2025-06-01'', [example_slot])], utcnow = 1000,
      option_number = (\<lambda>variation date time. Some ''1''),
      attempt_env = (\<lambda>date time i. carting_env)\<rparr>"

definition sold_out_poll :: poll_env where
  "sold_out_poll =
     example_poll\<lparr>poll_result :=
       Some [(''2025-06-01'', [example_slot\<lparr>qty_available := Qty 0\<rparr>,
                               example_slot\<lparr>qty_available := Qty (- 2)\<rparr>])]\<rparr>"

definition fresh_locals :: locals where
  "fresh_locals =
     \<lparr>loc_scan_count = 0, loc_previous_data = None, loc_no_tickets_logged = False\<rparr>"

section \<open>Properties of the site client\<close>

subsection \<open>Identifiers of the product page\<close>

text \<open>
  Claim C7, as amended. A transport failure, like every other exception of class
  \<open>Exception\<close>, does not leave \<open>extract_event_details\<close>: the result is the not-found pair
  \<open>(None, None)\<close>. So is the result for a status other than 200. On a page that came
  with status 200, a missing form action leaves the event id \<open>None\<close> and a missing SKU
  leaves the ticket id \<open>None\<close>; either way the caller's test
  \<open>not event_id or not ticket_id\<close> sees not-found, and nothing is raised. The one
  thing the method lets through is the cancellation of its task while it awaits the
  request.
\<close>

theorem extract_event_details_raises_only_cancellation:
  "extract_event_details (Inl (Exception e)) = Inr (None, None)
   \<and> extract_event_details (Inl CancelledError) = Inl CancelledError
   \<and> (\<forall>r. extract_event_details response = Inl r \<longrightarrow>
          r = CancelledError \<and> response = Inl CancelledError)
   \<and> (code \<noteq> 200 \<longrightarrow> extract_event_details (Inr (code, page)) = Inr (None, None))
   \<and> (marker_missing (first_form page) \<longrightarrow>
        (\<exists>t. extract_event_details (Inr (200, page)) = Inr (None, t)))
   \<and> (marker_missing (sku_meta page) \<longrightarrow>
        (\<exists>ev. extract_event_details (Inr (200, page)) = Inr (ev, None)))
   \<and> (marker_missing (first_form page) \<or> marker_missing (sku_meta page) \<longrightarrow>
        (\<exists>ids. extract_event_details (Inr (200, page)) = Inr ids \<and> not_found ids))"
  by (auto simp: extract_event_details_def extract_event_details_try_def marker_missing_def
        not_found_def Let_def split: sum.splits option.splits raised.splits)

text \<open>
  Instances: a 404 answer for a complete page, and a page with status 200 that has a
  form but no SKU.
\<close>

theorem extract_event_details_raises_only_cancellation_witness:
  "extract_event_details (Inr (404, \<lparr>first_form = Some (Some ''/book/123''),
       sku_meta = Some (Some ''SKU-9'')\<rparr>)) = Inr (None, None)
   \<and> marker_missing (sku_meta \<lparr>first_form = Some (Some ''/book/123''), sku_meta = None\<rparr>)
   \<and> extract_event_details (Inr (200, \<lparr>first_form = Some (Some ''/book/123''),
       sku_meta = None\<rparr>)) = Inr (Some ''123'', None)
   \<and> not_found (Some ''123'', None)"
  using extract_event_details_raises_only_cancellation
    [of "RequestError []"
        "Inr (404, \<lparr>first_form = Some (Some ''/book/123''), sku_meta = Some (Some ''SKU-9'')\<rparr>)"
        404
        "\<lparr>first_form = Some (Some ''/book/123''), sku_meta = None\<rparr>"]
  by (simp add: extract_event_details_def extract_event_details_try_def split_last_def
        marker_missing_def not_found_def)

text \<open>
  The request fails in transport: the method does not raise the exception, it
  returns the not-found pair.
\<close>

theorem extract_event_details_transport_counterexample:
  "extract_event_details (Inl (Exception (RequestError ''connection refused'')))
     = Inr (None, None)
   \<and> extract_event_details (Inl (Exception (RequestError ''connection refused'')))
       \<noteq> Inl (Exception (RequestError ''connection refused''))"
  by (simp add: extract_event_details_def extract_event_details_try_def)

subsection \<open>Phantom carts\<close>

lemma scan_negative:
  "indicator \<in> set error_indicators \<Longrightarrow> str_in indicator html \<Longrightarrow>
     scan_checkout_html html = False"
  by (auto simp: scan_checkout_html_def list_ex_iff)

text \<open>
  Claim C3. The vendor answers the POST with status 200, \<open>success: true\<close> and a
  positive quantity of quote items, and the checkout page, fetched on the same
  session, comes with status 200 and contains one of the negative phrases. Then
  \<open>add_to_cart\<close> returns \<open>(False, None, "Cart not valid at checkout (phantom cart)")\<close>,
  whatever positive phrases the page has as well; \<open>_attempt_atc\<close> returns \<open>False\<close> and
  the table of cart sessions is as before.
\<close>

theorem phantom_cart_is_rejected:
  assumes "post_response env = Inr (200, Some (JObj d))"
    and "map_of d ''success'' = Some (JBool True)"
    and "truthy (dict_get d ''qtm_quote_item_ids'' (JStr []))"
    and "truthy (dict_get d ''qtm_quote_item_qtys'' (JInt 0))"
    and "py_int (dict_get d ''qtm_quote_item_qtys'' (JInt 0)) = Inr n" and "n > 0"
    and "checkout_target (dict_get d ''checkout_url'' (JStr [])) = Some u"
    and "session_get env u = Inr (200, html)"
    and "indicator \<in> set error_indicators" and "str_in indicator html"
  shows "add_to_cart env = (False, None, Some (Text ''Cart not valid at checkout (phantom cart)''))
       \<and> fst (attempt_atc cfg a now env w) = False
       \<and> cart_sessions (snd (attempt_atc cfg a now env w)) = cart_sessions w"
proof -
  have v: "verify_cart_at_checkout (session_get env) (dict_get d ''checkout_url'' (JStr []))
             = False"
    using assms(7,8) scan_negative [OF assms(9,10)] by (simp add: verify_cart_at_checkout_def)
  have s: "vendor_success env d =
             Inr (False, None, Some (Text ''Cart not valid at checkout (phantom cart)''))"
    using assms(3,4,5,6) v by (simp add: vendor_success_def Let_def)
  have a: "add_to_cart env =
             (False, None, Some (Text ''Cart not valid at checkout (phantom cart)''))"
    using assms(1,2) s by (simp add: add_to_cart_def add_to_cart_try_def)
  show ?thesis
    using a by (simp add: attempt_atc_def log_def emit_def)
qed

text \<open>
  An instance: the page of \<open>phantom_env\<close> has the positive phrase "Zusammenfassung" and
  the negative phrase "ausverkauft".
\<close>

theorem phantom_cart_is_rejected_witness:
  "str_in ''ausverkauft'' ''Zusammenfassung: leider ausverkauft''
   \<and> str_in ''Zusammenfassung'' ''Zusammenfassung: leider ausverkauft''
   \<and> add_to_cart phantom_env =
       (False, None, Some (Text ''Cart not valid at checkout (phantom cart)''))
   \<and> fst (attempt_atc default_settings example_args 1000 phantom_env restarted_world) = False
   \<and> cart_sessions (snd (attempt_atc default_settings example_args 1000 phantom_env
        restarted_world)) = []"
  using phantom_cart_is_rejected
    [of phantom_env
        "[(''success'', JBool True), (''qtm_quote_item_ids'', JStr ''4711''),
          (''qtm_quote_item_qtys'', JStr ''2'')]"
        2 "BASE_URL @ ''/checkout/cart''" "''Zusammenfassung: leider ausverkauft''"
        "''ausverkauft''" default_settings example_args 1000 restarted_world]
  by (simp add: phantom_env_def dict_get_def checkout_target_def error_indicators_def
        int_of_str_def strip_def is_space_def unsigned_of_str_def is_digit_def
        str_in_def sublist_code restarted_world_def new_manager_def)

section \<open>Properties of the endpoints\<close>

subsection \<open>Creation of a task\<close>

text \<open>
  Claim C10. \<open>create_task\<close> stores a row, with status \<open>pending\<close> and the values of
  the request, exactly when the product URL contains
  \<open>audidefuehrungen2.regiondo.de\<close> and the quantity lies between 1 and 4. Every other
  request is answered with \<open>HTTPException(400, ...)\<close> and the database stays as it is.
\<close>

theorem create_task_validation:
  "(if str_in ''audidefuehrungen2.regiondo.de'' (req_product_url tc)
       \<and> 1 \<le> req_quantity tc \<and> req_quantity tc \<le> 4
    then \<exists>row. fst (create_task tc new_id w) = Inr row
           \<and> tasks (snd (create_task tc new_id w)) = (tasks w)(new_id \<mapsto> row)
           \<and> product_url row = req_product_url tc
           \<and> quantity row = req_quantity tc
           \<and> num_threads row = req_num_threads tc
           \<and> status row = PENDING
    else (\<exists>detail. fst (create_task tc new_id w) = Inl (HTTPException 400 detail))
           \<and> snd (create_task tc new_id w) = w)"
  by (simp add: create_task_def Let_def)

text \<open>An instance: five tickets are one too many.\<close>

theorem create_task_validation_witness:
  "fst (create_task \<lparr>req_product_url = ''https://audidefuehrungen2.regiondo.de/tour'',
          req_quantity = 5, req_num_threads = 5\<rparr> 8 restarted_world)
     = Inl (HTTPException 400 ''Quantity must be between 1 and 4'')
   \<and> snd (create_task \<lparr>req_product_url = ''https://audidefuehrungen2.regiondo.de/tour'',
          req_quantity = 5, req_num_threads = 5\<rparr> 8 restarted_world) = restarted_world"
  using create_task_validation
    [of "\<lparr>req_product_url = ''https://audidefuehrungen2.regiondo.de/tour'',
          req_quantity = 5, req_num_threads = 5\<rparr>" 8 restarted_world]
  by (simp add: create_task_def str_in_def sublist_code)

section \<open>Properties of the race\<close>

subsection \<open>What an attempt leaves alone\<close>




lemma quiet_attempt_atc:
  "\<exists>evs. trace (snd (attempt_atc cfg a now env w)) = trace w @ evs \<and> filter is_gather evs = []"
  by (auto simp: attempt_atc_def log_def broadcast_def emit_def Let_def
        split: prod.splits option.splits)

lemma quiet_gather_attempts:
  "\<exists>evs. trace (snd (gather_attempts cfg a now envs i n w)) = trace w @ evs
         \<and> filter is_gather evs = []"
proof (induction n arbitrary: i w)
  case 0
  show ?case by simp
next
  case (Suc n)
  let ?w1 = "snd (attempt_atc cfg a now (envs i) w)"
  obtain evs1 where 1: "trace ?w1 = trace w @ evs1" "filter is_gather evs1 = []"
    using quiet_attempt_atc by blast
  obtain evs2 where 2: "trace (snd (gather_attempts cfg a now envs (Suc i) n ?w1))
        = trace ?w1 @ evs2" "filter is_gather evs2 = []"
    using Suc.IH by blast
  show ?case
    using 1 2 by (intro exI [of _ "evs1 @ evs2"]) (simp add: split_beta)
qed

lemma length_gather_attempts:
  "length (fst (gather_attempts cfg a now envs i n w)) = n"
  by (induction n arbitrary: i w) (simp_all add: split_beta)

lemma new_events_append: "trace w' = trace w @ evs \<Longrightarrow> new_events w w' = evs"
  by (simp add: new_events_def)

lemma race_slot_shape:
  assumes "arg_quantity a \<noteq> 0"
  shows "\<exists>evs. fst (race_slot cfg a e date t avail w)
             = Inr (fst (gather_attempts cfg a (utcnow e) (attempt_env e date (slot_time t)) 0
                 (nat (actual_threads (arg_num_threads a) (avail div arg_quantity a)))
                 (emit (Gather (nat (actual_threads (arg_num_threads a)
                                       (avail div arg_quantity a))))
                    (log (arg_task_id a) Level_info
                       (Running_threads
                          (actual_threads (arg_num_threads a) (avail div arg_quantity a))
                          (avail div arg_quantity a)) w))))
          \<and> trace (snd (race_slot cfg a e date t avail w))
             = trace w @
               [Logged (arg_task_id a) Level_info
                  (Running_threads
                     (actual_threads (arg_num_threads a) (avail div arg_quantity a))
                     (avail div arg_quantity a)),
                Gather (nat (actual_threads (arg_num_threads a) (avail div arg_quantity a)))]
               @ evs
          \<and> filter is_gather evs = []"
proof -
  let ?k = "actual_threads (arg_num_threads a) (avail div arg_quantity a)"
  let ?w1 = "emit (Gather (nat ?k))
               (log (arg_task_id a) Level_info (Running_threads ?k (avail div arg_quantity a)) w)"
  obtain evs where
    "trace (snd (gather_attempts cfg a (utcnow e) (attempt_env e date (slot_time t)) 0
        (nat ?k) ?w1)) = trace ?w1 @ evs" "filter is_gather evs = []"
    using quiet_gather_attempts by blast
  then show ?thesis
    using assms
    by (intro exI [of _ evs])
       (simp add: race_slot_def max_possible_carts_def run_race_def Let_def split_beta
          log_def emit_def)
qed

subsection \<open>The number of attempts\<close>

text \<open>
  Claim C1, as amended. A slot with \<open>A\<close> tickets is raced for by a task that wants \<open>Q\<close>
  tickets with \<open>T\<close> threads. When \<open>Q\<close> is 0 the division raises. Otherwise the race
  returns one result for each attempt it has started, in its only \<open>asyncio.gather\<close>,
  and their number is \<open>min T (max 1 (A div Q))\<close>, or none when that is negative. For
  \<open>1 \<le> Q \<le> A\<close> and \<open>T \<ge> 0\<close> this number is \<open>min T (A div Q)\<close>, hence neither above \<open>T\<close>
  nor above \<open>A div Q\<close>.
\<close>

theorem race_attempt_count:
  "(arg_quantity a = 0 \<longrightarrow> race_slot cfg a e date t A w = (Inl ZeroDivisionError, w))
   \<and> (arg_quantity a \<noteq> 0 \<longrightarrow>
        (\<exists>results w'. race_slot cfg a e date t A w = (Inr results, w')
           \<and> length results = nat (min (arg_num_threads a) (max 1 (A div arg_quantity a)))
           \<and> filter is_gather (new_events w w') = [Gather (length results)]))
   \<and> (1 \<le> arg_quantity a \<and> arg_quantity a \<le> A \<and> 0 \<le> arg_num_threads a \<longrightarrow>
        max_possible_carts A (arg_quantity a) = Inr (A div arg_quantity a)
        \<and> (\<exists>results w'. race_slot cfg a e date t A w = (Inr results, w')
             \<and> int (length results) = min (arg_num_threads a) (A div arg_quantity a)
             \<and> int (length results) \<le> arg_num_threads a
             \<and> int (length results) \<le> A div arg_quantity a
             \<and> filter is_gather (new_events w w') = [Gather (length results)]))"
proof -
  let ?Q = "arg_quantity a" and ?T = "arg_num_threads a"
  let ?k = "actual_threads ?T (A div ?Q)"
  let ?results = "fst (gather_attempts cfg a (utcnow e) (attempt_env e date (slot_time t)) 0
              (nat ?k)
              (emit (Gather (nat ?k))
                 (log (arg_task_id a) Level_info (Running_threads ?k (A div ?Q)) w)))"
  let ?w' = "snd (race_slot cfg a e date t A w)"
  have zero: "race_slot cfg a e date t A w = (Inl ZeroDivisionError, w)" if "?Q = 0"
    using that by (simp add: race_slot_def max_possible_carts_def)
  have general: "race_slot cfg a e date t A w = (Inr ?results, ?w')
      \<and> length ?results = nat ?k
      \<and> filter is_gather (new_events w ?w') = [Gather (length ?results)]" if q: "?Q \<noteq> 0"
  proof -
    obtain evs where
      r: "fst (race_slot cfg a e date t A w) = Inr ?results"
      and tr: "trace ?w' =
            trace w @ [Logged (arg_task_id a) Level_info (Running_threads ?k (A div ?Q)),
                       Gather (nat ?k)] @ evs"
      and quiet: "filter is_gather evs = []"
      using race_slot_shape [OF q, of cfg e date t A w] by blast
    have len: "length ?results = nat ?k"
      by (rule length_gather_attempts)
    have g: "filter is_gather (new_events w ?w') = [Gather (length ?results)]"
      using new_events_append [OF tr] quiet len by simp
    have "race_slot cfg a e date t A w = (Inr ?results, ?w')"
      using r by (cases "race_slot cfg a e date t A w") simp
    then show ?thesis using len g by simp
  qed
  have special: "max_possible_carts A ?Q = Inr (A div ?Q)
      \<and> (\<exists>results w'. race_slot cfg a e date t A w = (Inr results, w')
             \<and> int (length results) = min ?T (A div ?Q)
             \<and> int (length results) \<le> ?T
             \<and> int (length results) \<le> A div ?Q
             \<and> filter is_gather (new_events w w') = [Gather (length results)])"
    if h: "1 \<le> ?Q" "?Q \<le> A" "0 \<le> ?T"
  proof -
    have d: "1 \<le> A div ?Q"
      using h pos_imp_zdiv_pos_iff [of ?Q A] by simp
    have k: "?k = min ?T (A div ?Q)"
      using d by (simp add: actual_threads_def max_def)
    have n: "0 \<le> min ?T (A div ?Q)" using h d by simp
    have q: "?Q \<noteq> 0" using h by simp
    have "int (length ?results) = min ?T (A div ?Q)"
      using general [OF q] k n by simp
    then have "\<exists>results w'. race_slot cfg a e date t A w = (Inr results, w')
             \<and> int (length results) = min ?T (A div ?Q)
             \<and> int (length results) \<le> ?T
             \<and> int (length results) \<le> A div ?Q
             \<and> filter is_gather (new_events w w') = [Gather (length results)]"
      using general [OF q]
      by (intro exI [of _ ?results] exI [of _ ?w']) simp
    then show ?thesis
      using q by (simp add: max_possible_carts_def)
  qed
  have general': "\<exists>results w'. race_slot cfg a e date t A w = (Inr results, w')
           \<and> length results = nat (min ?T (max 1 (A div ?Q)))
           \<and> filter is_gather (new_events w w') = [Gather (length results)]" if q: "?Q \<noteq> 0"
    using general [OF q]
    by (intro exI [of _ ?results] exI [of _ ?w']) (simp add: actual_threads_def)
  show ?thesis
    using zero general' special by blast
qed

text \<open>
  Races on \<open>example_poll\<close>, where every attempt meets \<open>carting_env\<close> and carts.
\<close>

lemma carting_attempt: "fst (attempt_atc cfg a now carting_env w) = True"
  by (simp add: attempt_atc_def add_to_cart_def add_to_cart_try_def vendor_success_def
        verify_cart_at_checkout_def checkout_target_def scan_checkout_html_def
        extract_session_cookie_def carting_env_def phantom_env_def dict_get_def
        error_indicators_def success_indicators_def BASE_URL_def
        int_of_str_def strip_def is_space_def unsigned_of_str_def is_digit_def
        str_in_def sublist_code Let_def split_beta)

lemma carting_gather:
  "fst (gather_attempts cfg a now (\<lambda>i. carting_env) i n w) = replicate n True"
  by (induction n arbitrary: i w) (simp_all add: split_beta carting_attempt)

lemma carting_race:
  assumes "arg_quantity a \<noteq> 0"
  shows "fst (race_slot cfg a example_poll date t A w) =
           Inr (replicate (nat (actual_threads (arg_num_threads a) (A div arg_quantity a))) True)"
proof -
  have "attempt_env example_poll date (slot_time t) = (\<lambda>i. carting_env)"
    by (simp add: example_poll_def)
  then show ?thesis
    using assms
    by (simp add: race_slot_def max_possible_carts_def run_race_def Let_def split_beta
          carting_gather)
qed

text \<open>
  The race of the scenario: ten tickets, four wanted, five threads. Two attempts
  run.
\<close>

theorem race_attempt_count_witness:
  "max_possible_carts 10 4 = Inr 2
   \<and> (\<exists>w'. race_slot default_settings example_args example_poll ''2025-06-01'' example_slot 10
              restarted_world = (Inr [True, True], w')
           \<and> filter is_gather (new_events restarted_world w') = [Gather 2])"
proof -
  have a: "arg_quantity example_args = 4" "arg_num_threads example_args = 5"
    by (simp_all add: example_args_def)
  have r: "fst (race_slot default_settings example_args example_poll ''2025-06-01''
                  example_slot 10 restarted_world) = Inr [True, True]"
    using carting_race [of example_args default_settings "''2025-06-01''" example_slot 10
            restarted_world]
    by (simp add: a actual_threads_def eval_nat_numeral)
  have "\<exists>results w'. race_slot default_settings example_args example_poll ''2025-06-01''
            example_slot 10 restarted_world = (Inr results, w')
          \<and> int (length results) = min 5 (10 div 4)
          \<and> filter is_gather (new_events restarted_world w') = [Gather (length results)]"
    using race_attempt_count
      [of example_args default_settings example_poll "''2025-06-01''" example_slot 10
          restarted_world]
    by (simp add: a)
  then obtain results w' where
    1: "race_slot default_settings example_args example_poll ''2025-06-01''
            example_slot 10 restarted_world = (Inr results, w')"
    and 2: "filter is_gather (new_events restarted_world w') = [Gather (length results)]"
    by blast
  have "results = [True, True]" using 1 r by simp
  then show ?thesis
    using 1 2 by (simp add: max_possible_carts_def)
qed

text \<open>
  Minus three threads for the same slot: no attempt runs, and \<open>min T (A div Q)\<close> is
  \<open>-3\<close>. A wanted quantity of \<open>-1\<close> at a slot with no tickets, which passes the
  guard \<open>qty_available >= quantity\<close>: one attempt runs, and \<open>min T (A div Q)\<close> is 0.
\<close>

theorem race_attempt_count_counterexample:
  "fst (race_slot default_settings (example_args\<lparr>arg_num_threads := - 3\<rparr>)
          example_poll ''2025-06-01'' example_slot 10 restarted_world) = Inr []
   \<and> arg_quantity (example_args\<lparr>arg_num_threads := - 3\<rparr>) = 4
   \<and> min (- 3) (10 div 4) = (- 3 :: int)
   \<and> int (length ([] :: bool list)) \<noteq> min (- 3) (10 div 4)
   \<and> fst (race_slot default_settings (example_args\<lparr>arg_quantity := - 1\<rparr>)
          example_poll ''2025-06-01'' (example_slot\<lparr>qty_available := Qty 0\<rparr>) 0
          restarted_world) = Inr [True]
   \<and> arg_num_threads (example_args\<lparr>arg_quantity := - 1\<rparr>) = 5
   \<and> (- 1 :: int) \<le> 0
   \<and> min 5 (0 div (- 1)) = (0 :: int)
   \<and> int (length [True]) \<noteq> min 5 (0 div (- 1))"
proof -
  have 1: "fst (race_slot default_settings (example_args\<lparr>arg_num_threads := - 3\<rparr>)
          example_poll ''2025-06-01'' example_slot 10 restarted_world) = Inr []"
    using carting_race [of "example_args\<lparr>arg_num_threads := - 3\<rparr>" default_settings
            "''2025-06-01''" example_slot 10 restarted_world]
    by (simp add: example_args_def actual_threads_def)
  have 2: "fst (race_slot default_settings (example_args\<lparr>arg_quantity := - 1\<rparr>)
          example_poll ''2025-06-01'' (example_slot\<lparr>qty_available := Qty 0\<rparr>) 0
          restarted_world) = Inr [True]"
    using carting_race [of "example_args\<lparr>arg_quantity := - 1\<rparr>" default_settings
            "''2025-06-01''" "example_slot\<lparr>qty_available := Qty 0\<rparr>" 0 restarted_world]
    by (simp add: example_args_def actual_threads_def)
  have 3: "arg_quantity (example_args\<lparr>arg_num_threads := - 3\<rparr>) = 4"
    "arg_num_threads (example_args\<lparr>arg_quantity := - 1\<rparr>) = 5"
    by (simp_all add: example_args_def)
  show ?thesis
    by (simp add: 1 2 3)
qed

section \<open>Properties of the polling loop\<close>

subsection \<open>What the rest of a cycle leaves of the scan record\<close>

lemma evolves_refl: "evolves w w"
  by (simp add: evolves_def)

lemma evolves_trans: "evolves w1 w2 \<Longrightarrow> evolves w2 w3 \<Longrightarrow> evolves w1 w3"
  by (auto simp: evolves_def)

lemma evolves_emit: "evolves w (emit ev w)"
  by (simp add: evolves_def emit_def scan_info_def fun_eq_iff)

lemma evolves_log: "evolves w (log tid lvl msg w)"
  by (simp add: log_def evolves_emit)

lemma evolves_broadcast: "evolves w (broadcast m w)"
  by (simp add: broadcast_def evolves_emit)

lemma evolves_set_completed:
  "evolves w (set_status tid s (\<lambda>r. r\<lparr>completed_at := c\<rparr>) w)"
  by (auto simp: evolves_def set_status_def emit_def scan_info_def fun_eq_iff split: option.splits)

lemma evolves_attempt_atc: "evolves w (snd (attempt_atc cfg a now env w))"
  by (auto simp: attempt_atc_def evolves_def log_def broadcast_def emit_def scan_info_def
        fun_eq_iff Let_def split: prod.splits option.splits)

lemma evolves_gather: "evolves w (snd (gather_attempts cfg a now envs i n w))"
proof (induction n arbitrary: i w)
  case 0
  show ?case by (simp add: evolves_refl)
next
  case (Suc n)
  have "evolves w (snd (attempt_atc cfg a now (envs i) w))"
    by (rule evolves_attempt_atc)
  moreover have "evolves (snd (attempt_atc cfg a now (envs i) w))
      (snd (gather_attempts cfg a now envs (Suc i) n (snd (attempt_atc cfg a now (envs i) w))))"
    by (rule Suc.IH)
  ultimately show ?case
    by (auto simp: split_beta intro: evolves_trans)
qed

lemma evolves_run_race: "evolves w (snd (run_race cfg a now envs k w))"
  unfolding run_race_def
  by (rule evolves_trans [OF evolves_emit evolves_gather])

lemma evolves_race_slot: "evolves w (snd (race_slot cfg a e date t avail w))"
proof (cases "max_possible_carts avail (arg_quantity a)")
  case (Inl ex)
  then show ?thesis by (simp add: race_slot_def evolves_refl)
next
  case (Inr carts)
  then show ?thesis
    by (simp add: race_slot_def Let_def split_beta
          evolves_trans [OF evolves_log evolves_run_race])
qed

lemma evolves_hold: "evolves w (snd (hold_and_recart cfg a now l w))"
  unfolding hold_and_recart_def Let_def snd_conv
  by (intro evolves_trans [OF _ evolves_broadcast] evolves_trans [OF _ evolves_set_completed]
        evolves_trans [OF _ evolves_log] evolves_trans [OF _ evolves_emit] evolves_refl)

lemma evolves_scan_tickets: "evolves w (snd (scan_tickets cfg a e date ts l w))"
proof (induction ts arbitrary: l w)
  case Nil
  show ?case by (simp add: evolves_refl)
next
  case (Cons t ts)
  note ih = Cons.IH
  show ?case
  proof (cases "qty_available t")
    case Qty_missing
    then show ?thesis by (simp add: evolves_refl)
  next
    case Qty_other
    then show ?thesis by (simp add: evolves_refl)
  next
    case (Qty avail)
    let ?w1 = "log (arg_task_id a) Level_info
                 (Attempting_to_buy (arg_quantity a) date (slot_time t) avail) w"
    have w1: "evolves w ?w1" by (rule evolves_log)
    have rest1: "\<And>l'. evolves w (snd (scan_tickets cfg a e date ts l' ?w1))"
      by (rule evolves_trans [OF w1 ih])
    show ?thesis
    proof (cases "avail \<ge> arg_quantity a")
      case False
      then show ?thesis using Qty ih by simp
    next
      case True
      show ?thesis
      proof (cases "variations t = [] \<or> hd (variations t) = []")
        case True
        then show ?thesis using Qty \<open>avail \<ge> arg_quantity a\<close> rest1 by (auto simp: Let_def)
      next
        case False
        note var = False
        show ?thesis
        proof (cases "option_number e (hd (variations t)) date (slot_time t)")
          case None
          then show ?thesis using Qty True var rest1 by (auto simp: Let_def)
        next
          case (Some opt)
          show ?thesis
          proof (cases "opt = []")
            case True
            then show ?thesis using Qty \<open>avail \<ge> arg_quantity a\<close> var Some rest1
              by (auto simp: Let_def)
          next
            case False
            let ?r = "race_slot cfg a e date t avail ?w1"
            have w2: "evolves w (snd ?r)"
              by (rule evolves_trans [OF w1 evolves_race_slot])
            let ?h = "hold_and_recart cfg a (utcnow e) l (snd ?r)"
            have w3: "evolves w (snd ?h)"
              by (rule evolves_trans [OF w2 evolves_hold])
            have w4: "evolves w (snd (scan_tickets cfg a e date ts (fst ?h) (snd ?h)))"
              by (rule evolves_trans [OF w3 ih])
            show ?thesis
              using Qty True var Some False w2 w4
              by (cases ?r; cases "fst ?r") (auto simp: Let_def split_beta)
          qed
        qed
      qed
    qed
  qed
qed

lemma evolves_scan_dates: "evolves w (snd (scan_dates cfg a e d l w))"
proof (induction d arbitrary: l w)
  case Nil
  show ?case by (simp add: evolves_refl)
next
  case (Cons p d)
  obtain date tickets where p: "p = (date, tickets)" by (cases p)
  let ?s = "scan_tickets cfg a e date tickets l w"
  have s: "evolves w (snd ?s)" by (rule evolves_scan_tickets)
  show ?case
  proof (cases "fst ?s")
    case (Inl ex)
    then show ?thesis using p s by (cases ?s) auto
  next
    case (Inr bl)
    obtain broke l1 where bl: "bl = (broke, l1)" by (cases bl)
    have "evolves w (snd (scan_dates cfg a e d l1 (snd ?s)))"
      by (rule evolves_trans [OF s Cons.IH])
    then show ?thesis using p s Inr bl by (cases ?s) auto
  qed
qed

lemma evolves_process_snapshot: "evolves w (snd (process_snapshot cfg a e l w))"
proof (cases "poll_result e")
  case None
  then show ?thesis
    by (auto simp: process_snapshot_def intro: evolves_trans [OF evolves_emit evolves_emit])
next
  case (Some d)
  let ?tot = "total_available (poll_result e)"
  let ?l1 = "l\<lparr>loc_previous_data := Some d, loc_no_tickets_logged := False\<rparr>"
  let ?w2 = "emit (Discord_availability d (arg_product_url a))
               (log (arg_task_id a) Level_info (Change_detected ?tot) w)"
  let ?s = "scan_dates cfg a e d ?l1 ?w2"
  have w2: "evolves w ?w2" by (rule evolves_trans [OF evolves_log evolves_emit])
  have s: "evolves w (snd ?s)" by (rule evolves_trans [OF w2 evolves_scan_dates])
  have s': "evolves w (emit (Sleep Scan_interval) (snd ?s))"
    by (rule evolves_trans [OF s evolves_emit])
  show ?thesis
    using Some s s'
    by (cases ?s; cases "fst ?s")
       (auto simp: process_snapshot_def Let_def intro: evolves_emit)
qed

lemma evolves_periodic_log: "evolves w (snd (periodic_log a tot l w))"
  by (auto simp: periodic_log_def Let_def intro: evolves_log evolves_refl)

lemma scan_count_periodic_log:
  "loc_scan_count (fst (periodic_log a tot l w)) = loc_scan_count l"
  by (simp add: periodic_log_def Let_def)

lemma trace_record_scan:
  assumes "tasks w (arg_task_id a) = Some row"
  shows "trace (snd (record_scan a e l w)) =
           trace w @ [Commit_scan (arg_task_id a) (loc_scan_count l + 1)
                        (total_available (poll_result e)) (utcnow e),
                      Broadcast (Scan_update (arg_task_id a) (loc_scan_count l + 1)
                        (total_available (poll_result e)) (utcnow e))]"
    and "scan_info (snd (record_scan a e l w)) (arg_task_id a) =
           Some (loc_scan_count l + 1, total_available (poll_result e), Some (utcnow e))"
    and "fst (record_scan a e l w) = l\<lparr>loc_scan_count := loc_scan_count l + 1\<rparr>"
  using assms
  by (simp_all add: record_scan_def Let_def broadcast_def emit_def scan_info_def)

subsection \<open>The quantity that is recorded\<close>

lemma sum_slots_numeric:
  "list_all (\<lambda>t. qty_available t \<noteq> Qty_other) ts \<Longrightarrow>
     sum_slots ts = Inr (sum_list (map shown_quantity ts))"
  by (induction ts) (auto simp: shown_quantity_def split: qty.splits)

lemma sum_slots_not_numeric:
  "\<not> list_all (\<lambda>t. qty_available t \<noteq> Qty_other) ts \<Longrightarrow> \<exists>ex. sum_slots ts = Inl ex"
  by (induction ts) (auto split: qty.splits sum.splits)

lemma sum_dates_numeric:
  "numeric d \<Longrightarrow>
     sum_dates d = Inr (sum_list (map (\<lambda>(date, tickets). sum_list (map shown_quantity tickets)) d))"
  unfolding numeric_def
  by (induction d) (auto simp: sum_slots_numeric)

lemma sum_dates_not_numeric: "\<not> numeric d \<Longrightarrow> \<exists>ex. sum_dates d = Inl ex"
  unfolding numeric_def
proof (induction d)
  case Nil
  then show ?case by simp
next
  case (Cons p d)
  obtain date tickets where p: "p = (date, tickets)" by (cases p)
  show ?case
  proof (cases "list_all (\<lambda>t. qty_available t \<noteq> Qty_other) tickets")
    case False
    then show ?thesis using p sum_slots_not_numeric [of tickets] by auto
  next
    case True
    then have "\<exists>ex. sum_dates d = Inl ex" using Cons p by simp
    then show ?thesis using p by (auto split: sum.splits)
  qed
qed

lemma total_available_last_observed: "total_available data = last_observed data"
proof (cases data)
  case None
  then show ?thesis by (simp add: total_available_def last_observed_def)
next
  case (Some d)
  show ?thesis
  proof (cases "numeric d")
    case True
    then show ?thesis
      using Some sum_dates_numeric [of d]
      by (cases d) (simp_all add: total_available_def last_observed_def)
  next
    case False
    then show ?thesis
      using Some sum_dates_not_numeric [of d]
      by (auto simp: total_available_def last_observed_def)
  qed
qed

subsection \<open>The scan record of every cycle\<close>

text \<open>
  Claim C8. Take any cycle of the polling loop of a task that has a row, whatever the
  poll returned. Before the cycle looks at the snapshot (\<open>process_snapshot\<close>), the
  loop's scan counter is one more than before, and the row holds that counter, the
  quantity the snapshot shows (\<open>last_observed\<close>) and the time of the scan; the commit
  and the \<open>scan_update\<close> broadcast are the first two events of the cycle. The three
  columns still hold these values at the end of the cycle.
\<close>

theorem scan_recorded_every_cycle:
  assumes "tasks w (arg_task_id a) = Some row"
  shows "\<exists>l1 w1 evs.
           monitor_iteration cfg a e l w = process_snapshot cfg a e l1 w1
         \<and> loc_scan_count l1 = loc_scan_count l + 1
         \<and> scan_info w1 (arg_task_id a) =
             Some (loc_scan_count l + 1, last_observed (poll_result e), Some (utcnow e))
         \<and> trace w1 =
             trace w @ [Commit_scan (arg_task_id a) (loc_scan_count l + 1)
                          (last_observed (poll_result e)) (utcnow e),
                        Broadcast (Scan_update (arg_task_id a) (loc_scan_count l + 1)
                          (last_observed (poll_result e)) (utcnow e))] @ evs
         \<and> prefix (trace w1) (trace (snd (monitor_iteration cfg a e l w)))
         \<and> scan_info (snd (monitor_iteration cfg a e l w)) (arg_task_id a) =
             Some (loc_scan_count l + 1, last_observed (poll_result e), Some (utcnow e))"
proof -
  let ?r = "record_scan a e l w"
  let ?p = "periodic_log a (total_available (poll_result e)) (fst ?r) (snd ?r)"
  let ?m = "monitor_iteration cfg a e l w"
  have m: "?m = process_snapshot cfg a e (fst ?p) (snd ?p)"
    by (simp add: monitor_iteration_def split_beta)
  have c: "loc_scan_count (fst ?p) = loc_scan_count l + 1"
    using trace_record_scan(3) [OF assms, of e l] by (simp add: scan_count_periodic_log)
  have rp: "evolves (snd ?r) (snd ?p)" by (rule evolves_periodic_log)
  then obtain evs where evs: "trace (snd ?p) = trace (snd ?r) @ evs"
    by (auto simp: evolves_def prefix_def)
  have ip: "scan_info (snd ?p) = scan_info (snd ?r)"
    using rp by (simp add: evolves_def)
  have pm: "evolves (snd ?p) (snd ?m)" unfolding m by (rule evolves_process_snapshot)
  have "?m = process_snapshot cfg a e (fst ?p) (snd ?p)
         \<and> loc_scan_count (fst ?p) = loc_scan_count l + 1
         \<and> scan_info (snd ?p) (arg_task_id a) =
             Some (loc_scan_count l + 1, last_observed (poll_result e), Some (utcnow e))
         \<and> trace (snd ?p) =
             trace w @ [Commit_scan (arg_task_id a) (loc_scan_count l + 1)
                          (last_observed (poll_result e)) (utcnow e),
                        Broadcast (Scan_update (arg_task_id a) (loc_scan_count l + 1)
                          (last_observed (poll_result e)) (utcnow e))] @ evs
         \<and> prefix (trace (snd ?p)) (trace (snd ?m))
         \<and> scan_info (snd ?m) (arg_task_id a) =
             Some (loc_scan_count l + 1, last_observed (poll_result e), Some (utcnow e))"
    using m c evs ip pm trace_record_scan(1,2) [OF assms, of e l]
    by (simp add: evolves_def total_available_last_observed)
  then show ?thesis by blast
qed

text \<open>
  An instance: the first cycle of task 7 on a poll that finds ten tickets. The row,
  which said no scan and no tickets, says scan 1, ten tickets, at time 1000.
\<close>

theorem scan_recorded_every_cycle_witness:
  "tasks restarted_world (arg_task_id example_args) = Some example_row
   \<and> scan_info restarted_world 7 = Some (0, 0, None)
   \<and> scan_info (snd (monitor_iteration default_settings example_args example_poll
        fresh_locals restarted_world)) 7 = Some (1, 10, Some 1000)"
proof -
  have r: "tasks restarted_world (arg_task_id example_args) = Some example_row"
    by (simp add: restarted_world_def new_manager_def example_args_def)
  have q: "last_observed (poll_result example_poll) = 10"
    by (simp add: last_observed_def numeric_def shown_quantity_def example_poll_def
          example_slot_def)
  have "scan_info (snd (monitor_iteration default_settings example_args example_poll
        fresh_locals restarted_world)) (arg_task_id example_args)
          = Some (loc_scan_count fresh_locals + 1, 10, Some (utcnow example_poll))"
    using scan_recorded_every_cycle [OF r, of default_settings example_poll fresh_locals]
    by (auto simp: q)
  moreover have "arg_task_id example_args = 7" "loc_scan_count fresh_locals = 0"
    "utcnow example_poll = 1000"
    by (simp_all add: example_args_def fresh_locals_def example_poll_def)
  moreover have "scan_info restarted_world 7 = Some (0, 0, None)"
    by (simp add: scan_info_def restarted_world_def new_manager_def example_row_def)
  ultimately show ?thesis
    using r by simp
qed

subsection \<open>No race without tickets\<close>

lemma sum_slots_not_positive:
  "list_all slot_not_positive ts \<Longrightarrow> sum_slots ts = Inr n \<Longrightarrow> n = 0"
  by (induction ts arbitrary: n) (auto split: qty.splits sum.splits)

lemma sum_dates_not_positive:
  "list_all (\<lambda>(date, tickets). list_all slot_not_positive tickets) d \<Longrightarrow>
   sum_dates d = Inr n \<Longrightarrow> n = 0"
  by (induction d arbitrary: n) (auto split: sum.splits dest: sum_slots_not_positive)

lemma total_available_not_positive:
  "no_positive_availability data \<Longrightarrow> total_available data = 0"
  by (auto simp: no_positive_availability_def total_available_def
        split: option.splits sum.splits dest: sum_dates_not_positive)

text \<open>
  Claim C4. When the snapshot of a cycle has no strictly positive quantity (or there
  is no snapshot), the cycle ends without an exception, starts no race, adds no cart
  session and leaves the remembered snapshot as it was, whatever snapshot is
  remembered.
\<close>

theorem no_race_without_availability:
  assumes "no_positive_availability (poll_result e)"
  shows "\<exists>l' evs. fst (monitor_iteration cfg a e l w) = Inr l'
           \<and> loc_previous_data l' = loc_previous_data l
           \<and> trace (snd (monitor_iteration cfg a e l w)) = trace w @ evs
           \<and> filter is_gather evs = []
           \<and> cart_sessions (snd (monitor_iteration cfg a e l w)) = cart_sessions w"
proof -
  have t: "total_available (poll_result e) = 0"
    by (rule total_available_not_positive [OF assms])
  show ?thesis
    using t
    by (cases "poll_result e"; cases "tasks w (arg_task_id a)")
       (simp_all add: monitor_iteration_def record_scan_def periodic_log_def
          process_snapshot_def Let_def broadcast_def log_def emit_def)
qed

text \<open>
  An instance: the snapshot of \<open>sold_out_poll\<close>, quantities 0 and -2, is new to the
  loop, and no race starts.
\<close>

theorem no_race_without_availability_witness:
  "no_positive_availability (poll_result sold_out_poll)
   \<and> differs (the (poll_result sold_out_poll)) (loc_previous_data fresh_locals)
   \<and> filter is_gather (trace (snd (monitor_iteration default_settings example_args
        sold_out_poll fresh_locals restarted_world))) = []"
  using no_race_without_availability
    [of sold_out_poll default_settings example_args fresh_locals restarted_world]
  by (auto simp: no_positive_availability_def sold_out_poll_def example_poll_def
        example_slot_def fresh_locals_def differs_def restarted_world_def new_manager_def)

subsection \<open>After a race that carted\<close>



section \<open>Properties of the supervisor\<close>

subsection \<open>Admission\<close>

lemma start_task_active:
  "active_tasks w (task_id row) \<noteq> None \<Longrightarrow> start_task row now w = (False, w)"
  by (simp add: start_task_def)

lemma start_task_inactive:
  assumes "active_tasks w (task_id row) = None"
  shows "fst (start_task row now w) = True"
    and "active_tasks (snd (start_task row now w)) (task_id row) = Some (next_handle w)"
    and "coroutines (snd (start_task row now w)) =
           coroutines w @ [(next_handle w, task_id row, Created)]"
  using assms by (simp_all add: start_task_def Let_def broadcast_def emit_def)

text \<open>
  Two admissions of a task that nothing monitors, one right after the other: the
  first returns \<open>True\<close>, the second \<open>False\<close>, and one coroutine monitors the task.
\<close>

lemma two_admissions_in_succession:
  assumes "active_tasks w (task_id row) = None" and "instances (task_id row) w = 0"
    and "task_id row' = task_id row"
  shows "fst (start_task row now w)
       \<and> start_task row' now' (snd (start_task row now w)) = (False, snd (start_task row now w))
       \<and> instances (task_id row) (snd (start_task row' now' (snd (start_task row now w)))) = 1"
proof -
  let ?w1 = "snd (start_task row now w)"
  have act: "active_tasks ?w1 (task_id row') \<noteq> None"
    using start_task_inactive(2) [OF assms(1)] assms(3) by simp
  have second: "start_task row' now' ?w1 = (False, ?w1)"
    by (rule start_task_active [OF act])
  have "instances (task_id row) ?w1 = 1"
    using start_task_inactive(3) [OF assms(1)] assms(2) by (simp add: instances_def)
  then show ?thesis
    using start_task_inactive(1) [OF assms(1)] second by simp
qed

subsection \<open>Two coroutines for one task\<close>

lemma overlapping_run_steps:
  "run_turns [Request_start 7 1, First_turn 0] restarted_world =
     \<lparr>active_tasks = [7 \<mapsto> 0], task_data = [7 \<mapsto> ()], coroutines = [(0, 7, Polling)],
      next_handle = 1,
      tasks = [7 \<mapsto> example_row\<lparr>status := RUNNING, started_at := Some 1\<rparr>],
      cart_sessions = [],
      trace = [Commit_status 7 PENDING, Commit_status 7 RUNNING,
               Broadcast (Task_update 7 RUNNING None)]\<rparr>"
  by (simp add: run_turns_def start_task_endpoint_def clean_stale_def reconcile_def
        start_task_def coroutine_starts_def set_phase_def broadcast_def emit_def
        restarted_world_def new_manager_def example_row_def Let_def)

text \<open>
  Claim C5 says that a task never has more than one live coroutine. At the end of
  \<open>overlapping_run\<close> task 7 has two, those of the second and the third request:
  \<open>_mark_failed\<close> deleted the entry of the first coroutine before that coroutine was
  over, so the second request was admitted, and the \<open>finally\<close> clause of the first
  coroutine then deleted the entry of the second, so the third was admitted too.
\<close>

theorem two_live_monitors:
  "coroutines (run_turns overlapping_run restarted_world) = [(1, 7, Created), (2, 7, Created)]
   \<and> instances 7 (run_turns overlapping_run restarted_world) = 2
   \<and> active_tasks (run_turns overlapping_run restarted_world) 7 = Some 2"
proof -
  let ?w2 = "run_turns [Request_start 7 1, First_turn 0] restarted_world"
  let ?rest = "[Failure 0 (Text ''Could not extract Event/Ticket ID'') 2,
                Request_start 7 3, Return 0, Request_start 7 4]"
  have split: "run_turns overlapping_run restarted_world = run_turns ?rest ?w2"
    by (simp add: run_turns_def overlapping_run_def)
  have c: "coroutines (run_turns ?rest ?w2) = [(1, 7, Created), (2, 7, Created)]"
    and a: "active_tasks (run_turns ?rest ?w2) 7 = Some 2"
    unfolding overlapping_run_steps
    by (simp_all add: run_turns_def start_task_endpoint_def clean_stale_def reconcile_def
          start_task_def coroutine_fails_def coroutine_returns_def set_phase_def
          mark_failed_def set_status_def run_monitor_finally_def broadcast_def emit_def
          example_row_def Let_def)
  show ?thesis
    using c a by (simp add: split instances_def)
qed

subsection \<open>Stopping a task\<close>

text \<open>
  When the coroutine has run, its \<open>finally\<close> clause removes the entry while
  \<open>stop_task\<close> awaits it, and the \<open>del\<close> in \<open>stop_task\<close> raises \<open>KeyError\<close>: the row is
  not touched, whatever its status.
\<close>

lemma stop_task_raises_after_run:
  assumes "active_tasks w tid = Some h" and "map_of (coroutines w) h = Some (tid, ph)"
    and "ph \<noteq> Created"
  shows "fst (stop_task tid now w) = Inl (KeyError (JInt tid))
       \<and> tasks (snd (stop_task tid now w)) = tasks w
       \<and> active_tasks (snd (stop_task tid now w)) tid = None"
  using assms
  by (simp add: stop_task_def stop_task_cancel_def cancel_and_await_def
        run_monitor_finally_def Let_def)

text \<open>
  Claim C2 says that stopping a task with an active handle leaves it with status
  \<open>stopped\<close> and without its handle. In \<open>polling_world\<close> task 7 has its handle, a
  coroutine that polls, and status \<open>running\<close>. There \<open>stop_task\<close> raises
  \<open>KeyError\<close>, and so does the endpoint; the handle is gone and the status is still
  \<open>running\<close>.
\<close>

theorem stop_task_raises_while_polling:
  "active_tasks polling_world 7 = Some 0
   \<and> map_of (coroutines polling_world) 0 = Some (7, Polling)
   \<and> map_option status (tasks polling_world 7) = Some RUNNING
   \<and> fst (stop_task 7 2000 polling_world) = Inl (KeyError (JInt 7))
   \<and> fst (stop_task_endpoint 7 2000 polling_world) = Inl (KeyError (JInt 7))
   \<and> active_tasks (snd (stop_task 7 2000 polling_world)) 7 = None
   \<and> map_option status (tasks (snd (stop_task 7 2000 polling_world)) 7) = Some RUNNING"
proof -
  have 1: "active_tasks polling_world 7 = Some 0"
    and 2: "map_of (coroutines polling_world) 0 = Some (7, Polling)"
    and 3: "map_option status (tasks polling_world 7) = Some RUNNING"
    by (simp_all add: polling_world_def overlapping_run_steps)
  have "Polling \<noteq> Created" by simp
  from stop_task_raises_after_run [OF 1 2 this, of 2000]
  show ?thesis
    using 1 2 3 by (simp add: stop_task_endpoint_def split_beta)
qed

text \<open>The same in the cart hold, where the status is \<open>success\<close> before and after.\<close>

lemma stop_task_raises_during_hold:
  "fst (stop_task 7 2000 hold_world) = Inl (KeyError (JInt 7))
   \<and> map_option status (tasks (snd (stop_task 7 2000 hold_world)) 7) = Some SUCCESS"
  using stop_task_raises_after_run [of hold_world 7 0 Holding 2000]
  by (simp add: hold_world_def)

text \<open>
  A task that is stopped before its coroutine has run: \<open>stop_task\<close> returns \<open>True\<close>
  and the status is \<open>stopped\<close>.
\<close>

lemma stop_task_before_first_turn:
  assumes "active_tasks w tid = Some h" and "map_of (coroutines w) h = Some (tid, Created)"
    and "tasks w tid = Some row" and "status row = RUNNING"
  shows "fst (stop_task tid now w) = Inr True
       \<and> active_tasks (snd (stop_task tid now w)) tid = None
       \<and> map_option status (tasks (snd (stop_task tid now w)) tid) = Some STOPPED"
  using assms
  by (simp add: stop_task_def stop_task_cancel_def cancel_and_await_def
        set_status_def broadcast_def emit_def Let_def)

subsection \<open>Starting a task whose row is stale\<close>

text \<open>
  Claim C6. The row of a task says \<open>running\<close>, and \<open>active_tasks\<close> has no entry for
  it, or an entry whose coroutine is done. Then the endpoint \<open>start_task\<close> commits the
  status \<open>pending\<close>, then starts the task (status \<open>running\<close>, a new coroutine, its
  entry in \<open>active_tasks\<close>, the broadcast) and answers "Task started".
\<close>

theorem stale_running_is_restarted:
  assumes "tasks w tid = Some row" and "task_id row = tid" and "status row = RUNNING"
    and "active_tasks w tid = None \<or> (\<exists>h. active_tasks w tid = Some h \<and> handle_done h w)"
  shows "fst (start_task_endpoint tid now w) = Inr ''Task started''
       \<and> trace (snd (start_task_endpoint tid now w)) =
           trace w @ [Commit_status tid PENDING, Commit_status tid RUNNING,
                      Broadcast (Task_update tid RUNNING None)]
       \<and> tasks (snd (start_task_endpoint tid now w)) tid =
           Some (row\<lparr>status := RUNNING, started_at := Some now\<rparr>)
       \<and> active_tasks (snd (start_task_endpoint tid now w)) tid = Some (next_handle w)
       \<and> coroutines (snd (start_task_endpoint tid now w)) =
           coroutines w @ [(next_handle w, tid, Created)]"
  using assms
  by (auto simp: start_task_endpoint_def clean_stale_def reconcile_def start_task_def
        broadcast_def emit_def Let_def)

text \<open>An instance: task 7 right after the process has come up.\<close>

theorem stale_running_is_restarted_witness:
  "map_option status (tasks restarted_world 7) = Some RUNNING
   \<and> active_tasks restarted_world 7 = None
   \<and> fst (start_task_endpoint 7 1 restarted_world) = Inr ''Task started''
   \<and> trace (snd (start_task_endpoint 7 1 restarted_world)) =
       [Commit_status 7 PENDING, Commit_status 7 RUNNING, Broadcast (Task_update 7 RUNNING None)]
   \<and> instances 7 (snd (start_task_endpoint 7 1 restarted_world)) = 1"
  using stale_running_is_restarted [of restarted_world 7 example_row 1]
  by (simp add: restarted_world_def new_manager_def example_row_def instances_def)

end
